theory Spec2Isabelle
  imports Complex_Main
begin

section \<open>Smart irrigation service: numeric conventions\<close>

text \<open>
  The service computes with Python floats. They are modelled as the real numbers, so
  the theorems below are about the exact arithmetic the formulas describe, without
  rounding error, infinities or NaN. Python's \<^verbatim>\<open>round(x, n)\<close> is kept, as rounding to
  \<open>n\<close> decimals with ties going to the even neighbour.
\<close>

datatype py_error = KeyError | IndexError | ZeroDivisionError | ValueError

definition round_half_even :: "real \<Rightarrow> int" where
  "round_half_even y =
     (let f = \<lfloor>y\<rfloor>; d = y - of_int f
      in if d < 1 / 2 then f
         else if 1 / 2 < d then f + 1
         else if even f then f else f + 1)"

definition py_round :: "real \<Rightarrow> nat \<Rightarrow> real" where
  "py_round x n = of_int (round_half_even (x * 10 ^ n)) / 10 ^ n"

definition dict_get :: "('k \<Rightarrow> 'v option) \<Rightarrow> 'k \<Rightarrow> 'v \<Rightarrow> 'v" where
  "dict_get m k dflt = (case m k of Some v \<Rightarrow> v | None \<Rightarrow> dflt)"

section \<open>Parameter tables of \<^verbatim>\<open>SmartIrrigationService.__init__\<close>\<close>

record kc_values =
  kc_initial :: real
  kc_development :: real
  kc_mid_season :: real
  kc_late_season :: real

record growth_stages =
  gs_initial :: nat
  gs_development :: nat
  gs_mid_season :: nat
  gs_late_season :: nat

record crop_params =
  p :: real
  crop_field_capacity :: real
  crop_wilting_point :: real
  rooting_depth :: real
  kc_values :: kc_values
  growth_stages :: growth_stages

record soil_params =
  field_capacity :: real
  wilting_point :: real
  infiltration_rate :: real
  hydraulic_conductivity :: real
  bulk_density :: real
  porosity :: real

record system_params =
  efficiency :: real
  cost_per_mm :: real
  application_rate :: real
  uniformity :: real

definition asparagus :: crop_params where
  "asparagus = \<lparr>p = 65 / 100, crop_field_capacity = 35 / 100, crop_wilting_point = 15 / 100,
     rooting_depth = 12 / 10,
     kc_values = \<lparr>kc_initial = 5 / 10, kc_development = 8 / 10,
                  kc_mid_season = 115 / 100, kc_late_season = 1\<rparr>,
     growth_stages = \<lparr>gs_initial = 30, gs_development = 40,
                      gs_mid_season = 50, gs_late_season = 30\<rparr>\<rparr>"

definition tomato :: crop_params where
  "tomato = \<lparr>p = 40 / 100, crop_field_capacity = 35 / 100, crop_wilting_point = 15 / 100,
     rooting_depth = 1,
     kc_values = \<lparr>kc_initial = 6 / 10, kc_development = 115 / 100,
                  kc_mid_season = 115 / 100, kc_late_season = 8 / 10\<rparr>,
     growth_stages = \<lparr>gs_initial = 25, gs_development = 35,
                      gs_mid_season = 40, gs_late_season = 30\<rparr>\<rparr>"

definition wheat :: crop_params where
  "wheat = \<lparr>p = 55 / 100, crop_field_capacity = 35 / 100, crop_wilting_point = 15 / 100,
     rooting_depth = 15 / 10,
     kc_values = \<lparr>kc_initial = 4 / 10, kc_development = 7 / 10,
                  kc_mid_season = 115 / 100, kc_late_season = 4 / 10\<rparr>,
     growth_stages = \<lparr>gs_initial = 15, gs_development = 25,
                      gs_mid_season = 50, gs_late_season = 30\<rparr>\<rparr>"

definition crop_parameters :: "string \<Rightarrow> crop_params option" where
  "crop_parameters k =
     (if k = ''asparagus'' then Some asparagus
      else if k = ''tomato'' then Some tomato
      else if k = ''wheat'' then Some wheat
      else None)"

definition sandy :: soil_params where
  "sandy = \<lparr>field_capacity = 25 / 100, wilting_point = 10 / 100, infiltration_rate = 25,
     hydraulic_conductivity = 5, bulk_density = 16 / 10, porosity = 40 / 100\<rparr>"

definition loamy :: soil_params where
  "loamy = \<lparr>field_capacity = 35 / 100, wilting_point = 15 / 100, infiltration_rate = 15,
     hydraulic_conductivity = 25 / 10, bulk_density = 14 / 10, porosity = 45 / 100\<rparr>"

definition clay :: soil_params where
  "clay = \<lparr>field_capacity = 45 / 100, wilting_point = 20 / 100, infiltration_rate = 5,
     hydraulic_conductivity = 5 / 10, bulk_density = 13 / 10, porosity = 50 / 100\<rparr>"

definition soil_types :: "string \<Rightarrow> soil_params option" where
  "soil_types k =
     (if k = ''sandy'' then Some sandy
      else if k = ''loamy'' then Some loamy
      else if k = ''clay'' then Some clay
      else None)"

definition drip :: system_params where
  "drip = \<lparr>efficiency = 90 / 100, cost_per_mm = 15 / 100, application_rate = 5,
     uniformity = 95 / 100\<rparr>"

definition sprinkler :: system_params where
  "sprinkler = \<lparr>efficiency = 75 / 100, cost_per_mm = 10 / 100, application_rate = 15,
     uniformity = 85 / 100\<rparr>"

definition flood :: system_params where
  "flood = \<lparr>efficiency = 60 / 100, cost_per_mm = 5 / 100, application_rate = 25,
     uniformity = 70 / 100\<rparr>"

definition micro_sprinkler :: system_params where
  "micro_sprinkler = \<lparr>efficiency = 85 / 100, cost_per_mm = 12 / 100, application_rate = 8,
     uniformity = 90 / 100\<rparr>"

definition irrigation_systems :: "string \<Rightarrow> system_params option" where
  "irrigation_systems k =
     (if k = ''drip'' then Some drip
      else if k = ''sprinkler'' then Some sprinkler
      else if k = ''flood'' then Some flood
      else if k = ''micro_sprinkler'' then Some micro_sprinkler
      else None)"

definition forecast_horizon :: nat where
  "forecast_horizon = 72"

text \<open>The lookups with a fallback that every stage starts with.\<close>

definition crop_of :: "string \<Rightarrow> crop_params" where
  "crop_of crop_type = dict_get crop_parameters crop_type asparagus"

definition soil_of :: "string \<Rightarrow> soil_params" where
  "soil_of soil_type = dict_get soil_types soil_type loamy"

definition system_of :: "string \<Rightarrow> system_params" where
  "system_of irrigation_system = dict_get irrigation_systems irrigation_system drip"

section \<open>Stress threshold (FAO-56)\<close>

record trigger_points =
  tp_low :: real
  tp_medium :: real
  tp_high :: real
  tp_critical :: real

record stress_threshold_data =
  theta_critical :: real
  theta_critical_base :: real
  std_field_capacity :: real
  std_wilting_point :: real
  TAW :: real
  RAW :: real
  surplus_threshold :: real
  depletion_fraction_p :: real
  mad_percentage :: real
  vegetation_adjustment :: real
  trigger_points :: trigger_points

definition calculate_vegetation_adjustment :: "real \<Rightarrow> string \<Rightarrow> real" where
  "calculate_vegetation_adjustment lai crop_type =
     (if lai < 1 then 11 / 10 else if 4 < lai then 95 / 100 else 1)"

text \<open>
  \<^verbatim>\<open>_calculate_stress_threshold_fao56\<close>. Its third argument is the vegetation
  parameter dictionary, of which it reads \<^verbatim>\<open>.get('lai', 2.5)\<close>; the model takes
  that entry as an option. The division \<^verbatim>\<open>RAW / TAW\<close> cannot fail on the tables
  (\<open>TAW\<close> is positive for the three soils).
\<close>

definition calculate_stress_threshold_fao56 ::
  "string \<Rightarrow> string \<Rightarrow> real option \<Rightarrow> py_error + stress_threshold_data" where
  "calculate_stress_threshold_fao56 crop_type soil_type veg_lai =
     (let crop = crop_of crop_type;
          soil = soil_of soil_type;
          fc = field_capacity soil;
          wp = wilting_point soil;
          taw = fc - wp;
          raw = p crop * taw;
          theta_crit = fc - raw;
          lai = (case veg_lai of Some l \<Rightarrow> l | None \<Rightarrow> 25 / 10);
          adj = calculate_vegetation_adjustment lai crop_type;
          theta_crit_adjusted = theta_crit * adj
      in if taw = 0 then Inl ZeroDivisionError
         else Inr \<lparr>theta_critical = py_round theta_crit_adjusted 4,
                   theta_critical_base = py_round theta_crit 4,
                   std_field_capacity = fc,
                   std_wilting_point = wp,
                   TAW = py_round taw 4,
                   RAW = py_round raw 4,
                   surplus_threshold = fc,
                   depletion_fraction_p = p crop,
                   mad_percentage = py_round (raw / taw * 100) 1,
                   vegetation_adjustment = py_round adj 3,
                   trigger_points =
                     \<lparr>tp_low = py_round (theta_crit_adjusted + 2 / 100) 4,
                      tp_medium = py_round theta_crit_adjusted 4,
                      tp_high = py_round (theta_crit_adjusted - 1 / 100) 4,
                      tp_critical = py_round (wp + 2 / 100) 4\<rparr>\<rparr>)"

section \<open>Inputs and environment\<close>

text \<open>
  The inputs are lists of dictionaries. A key the service reads with \<^verbatim>\<open>.get(key, default)\<close>
  is an optional field; so is a key it reads with \<^verbatim>\<open>[key]\<close>, where absence raises
  \<^verbatim>\<open>KeyError\<close>.
\<close>

record weather_obs =
  obs_temperature :: "real option"
  obs_humidity :: "real option"
  obs_rainfall :: "real option"
  obs_wind_speed :: "real option"
  obs_solar_radiation :: "real option"

record lai_obs =
  obs_lai :: "real option"

record satellite_data =
  sat_ndvi :: "real list option"
  sat_evi :: "real list option"

record farm_bounds =
  north :: real
  south :: real
  east :: real
  west :: real

text \<open>
  An instant is a number of seconds on the local calendar, counted from a midnight.
  \<^verbatim>\<open>datetime.now()\<close> is read from a clock: \<open>clk k\<close> is the \<open>k\<close>-th reading a function
  makes. Strings produced by \<^verbatim>\<open>isoformat()\<close> are kept as the instant, and those produced
  by \<^verbatim>\<open>strftime('%Y-%m-%d')\<close> as the number of the day.
\<close>

type_synonym clock = "nat \<Rightarrow> real"

definition hours :: "real \<Rightarrow> real" where
  "hours n = 3600 * n"

definition days :: "real \<Rightarrow> real" where
  "days n = 86400 * n"

definition day_number :: "real \<Rightarrow> int" where
  "day_number t = \<lfloor>t / 86400\<rfloor>"

definition replace_0600 :: "real \<Rightarrow> real" where
  \<comment> \<open>\<^verbatim>\<open>t.replace(hour=6, minute=0, second=0)\<close>: the microseconds of \<open>t\<close> stay\<close>
  "replace_0600 t = 86400 * of_int (day_number t) + 21600 + (t - of_int \<lfloor>t\<rfloor>)"

text \<open>
  The process-global generator of \<^verbatim>\<open>numpy.random\<close> is a stream of standard variates;
  a draw takes the head and leaves the tail as the new global state. As in the library,
  a normal draw is \<open>loc + scale * z\<close>, an exponential draw \<open>scale * z\<close>, and a negative
  scale raises \<^verbatim>\<open>ValueError\<close>.
\<close>

type_synonym rng_state = "nat \<Rightarrow> real"

definition random_normal :: "rng_state \<Rightarrow> real \<Rightarrow> real \<Rightarrow> py_error + (real \<times> rng_state)" where
  "random_normal g loc scale =
     (if scale < 0 then Inl ValueError else Inr (loc + scale * g 0, \<lambda>k. g (Suc k)))"

definition random_exponential :: "rng_state \<Rightarrow> real \<Rightarrow> py_error + (real \<times> rng_state)" where
  "random_exponential g scale =
     (if scale < 0 then Inl ValueError else Inr (scale * g 0, \<lambda>k. g (Suc k)))"

definition np_mean :: "real list \<Rightarrow> real" where
  \<comment> \<open>on the empty list the library returns NaN, which is no real number\<close>
  "np_mean xs = sum_list xs / real (length xs)"

definition last_n :: "nat \<Rightarrow> 'a list \<Rightarrow> 'a list" where
  \<comment> \<open>the slice \<^verbatim>\<open>xs[-n:]\<close> for positive \<open>n\<close>\<close>
  "last_n n xs = drop (length xs - n) xs"

definition opt_get :: "'a option \<Rightarrow> 'a \<Rightarrow> 'a" where
  "opt_get v dflt = (case v of Some x \<Rightarrow> x | None \<Rightarrow> dflt)"

section \<open>Evapotranspiration and the small calculators\<close>

text \<open>
  Division by zero raises \<^verbatim>\<open>ZeroDivisionError\<close>, as it does on Python floats. The
  formula divides by \<open>temperature + 237.3\<close>, by its square, by \<open>temperature + 273\<close> and by
  \<open>delta + gamma * 1.68\<close>, so the singular temperatures are -237.3 and -273 degrees.
  Two effects of the floating-point numbers are outside the real numbers and are not
  followed at these temperatures: a numpy scalar (an average of the history is one)
  divided by zero gives an infinity or NaN with a warning, where the model raises as for a
  Python float; and \<^verbatim>\<open>math.exp\<close> overflows for temperatures between about -243.4 and
  -237.3 degrees, where the model has the real exponential.
\<close>

definition calculate_reference_et_penman_monteith ::
  "real \<Rightarrow> real \<Rightarrow> real \<Rightarrow> py_error + real" where
  "calculate_reference_et_penman_monteith temperature humidity solar_radiation =
     (if temperature + 2373 / 10 = 0 then Inl ZeroDivisionError
      else
        let delta = 4098 * (6108 / 10000 * exp (1727 / 100 * temperature / (temperature + 2373 / 10)))
                      / (temperature + 2373 / 10) ^ 2;
            gamma = 665 / 1000
        in if temperature + 273 = 0 \<or> delta + gamma * (1 + 34 / 100 * 2) = 0
           then Inl ZeroDivisionError
           else
             let et0 = (408 / 1000 * delta * solar_radiation
                         + gamma * 900 / (temperature + 273) * 2 * (1 / 100 * (100 - humidity)))
                       / (delta + gamma * (1 + 34 / 100 * 2))
             in Inr (max 0 et0))"

definition calculate_hourly_et0 :: "real \<Rightarrow> real \<Rightarrow> real \<Rightarrow> real \<Rightarrow> py_error + real" where
  "calculate_hourly_et0 temp humidity wind solar =
     (case calculate_reference_et_penman_monteith temp humidity solar of
        Inl e \<Rightarrow> Inl e
      | Inr daily_et0 \<Rightarrow> Inr (daily_et0 / 24))"

definition get_crop_coefficient :: "string \<Rightarrow> real \<Rightarrow> real" where
  "get_crop_coefficient crop_type lai =
     (let crop = crop_of crop_type
      in if lai < 1 then kc_initial (kc_values crop)
         else if lai < 25 / 10 then kc_development (kc_values crop)
         else if lai < 4 then kc_mid_season (kc_values crop)
         else kc_late_season (kc_values crop))"

definition calculate_deep_percolation :: "real \<Rightarrow> real \<Rightarrow> real \<Rightarrow> real" where
  "calculate_deep_percolation moisture fc conductivity =
     (if moisture \<le> fc then 0
      else let excess_water = moisture - fc
           in min (excess_water * 1000) (conductivity / 24))"

definition estimate_lai_from_ndvi :: "real \<Rightarrow> real" where
  "estimate_lai_from_ndvi ndvi = max 0 (min 6 (3618 / 1000 * ndvi - 118 / 1000))"

definition calculate_albedo_from_ndvi :: "real \<Rightarrow> real" where
  "calculate_albedo_from_ndvi ndvi =
     max (1 / 10) (min (4 / 10) (23 / 100 - 15 / 100 * ndvi + 5 / 100 * ndvi ^ 2))"

definition calculate_canopy_cover :: "real \<Rightarrow> real" where
  "calculate_canopy_cover lai = min 1 (1 - exp (- (5 / 10) * lai))"

definition height_factors :: "string \<Rightarrow> real option" where
  "height_factors k =
     (if k = ''asparagus'' then Some (15 / 10)
      else if k = ''tomato'' then Some (12 / 10)
      else if k = ''wheat'' then Some (8 / 10)
      else None)"

definition estimate_vegetation_height :: "string \<Rightarrow> real \<Rightarrow> real" where
  "estimate_vegetation_height crop_type lai =
     dict_get height_factors crop_type 1 * min 1 (lai / 3)"

text \<open>
  The averages of \<^verbatim>\<open>_calculate_ndvi_trend\<close> are numpy scalars, whose division by zero
  gives an infinity or NaN and no exception: a positive change over a zero average counts
  as increasing, a negative one as decreasing, and NaN compares false both times.
\<close>

definition calculate_ndvi_trend :: "real list \<Rightarrow> string" where
  "calculate_ndvi_trend ndvi_values =
     (if length ndvi_values < 2 then ''stable''
      else
        let recent_avg = np_mean (last_n 3 ndvi_values);
            older_avg = np_mean (take 3 ndvi_values)
        in if older_avg = 0
           then (if 0 < recent_avg then ''increasing''
                 else if recent_avg < 0 then ''decreasing'' else ''stable'')
           else
             let change = (recent_avg - older_avg) / older_avg * 100
             in if 5 < change then ''increasing''
                else if change < - 5 then ''decreasing''
                else ''stable'')"

definition assess_vegetation_health :: "real \<Rightarrow> real \<Rightarrow> real \<Rightarrow> string" where
  "assess_vegetation_health ndvi evi lai =
     (let health_score = ndvi * 40 + evi * 30 + min (lai / 4) 1 * 30
      in if 80 < health_score then ''excellent''
         else if 65 < health_score then ''good''
         else if 50 < health_score then ''moderate''
         else ''poor'')"

definition calculate_days_since_rain :: "weather_obs list \<Rightarrow> nat" where
  "calculate_days_since_rain weather_data =
     min (length (takeWhile (\<lambda>day. \<not> 5 < opt_get (obs_rainfall day) 0) (rev weather_data))) 30"

definition calculate_growing_degree_days :: "weather_obs list \<Rightarrow> real" where
  "calculate_growing_degree_days weather_data =
     foldl (\<lambda>gdd day. let daily_temp = opt_get (obs_temperature day) 20
                       in if 10 < daily_temp then gdd + (daily_temp - 10) else gdd)
           0 weather_data"

section \<open>Initial conditions and vegetation parameters\<close>

definition bind_err :: "py_error + 'a \<Rightarrow> ('a \<Rightarrow> py_error + 'b) \<Rightarrow> py_error + 'b" where
  "bind_err r f = (case r of Inl e \<Rightarrow> Inl e | Inr v \<Rightarrow> f v)"

record initial_conditions =
  soil_water_content :: real
  ic_field_capacity :: real
  ic_wilting_point :: real
  ic_lai :: real
  ic_ndvi :: real
  ic_albedo :: real
  root_zone_depth :: real
  ic_canopy_cover :: real
  days_since_rain :: nat
  growing_degree_days :: real
  water_balance :: real
  last_irrigation :: "real option"
  soil_temperature :: real
  ic_stress_threshold :: "real option"

text \<open>
  The dictionaries the service builds have no \<^verbatim>\<open>'stress_threshold'\<close> key, which the
  simulator reads with a default: the field is \<open>None\<close> in both constructors.
\<close>

definition get_default_initial_conditions :: "string \<Rightarrow> string \<Rightarrow> initial_conditions" where
  "get_default_initial_conditions crop_type soil_type =
     (let crop = crop_of crop_type; soil = soil_of soil_type
      in \<lparr>soil_water_content = field_capacity soil * (7 / 10),
          ic_field_capacity = field_capacity soil,
          ic_wilting_point = wilting_point soil,
          ic_lai = 25 / 10,
          ic_ndvi = 6 / 10,
          ic_albedo = 2 / 10,
          root_zone_depth = rooting_depth crop,
          ic_canopy_cover = 6 / 10,
          days_since_rain = 3,
          growing_degree_days = 150,
          water_balance = 0,
          last_irrigation = None,
          soil_temperature = 18,
          ic_stress_threshold = None\<rparr>)"

definition get_initial_conditions_fest_ewb ::
  "lai_obs list \<Rightarrow> weather_obs list \<Rightarrow> satellite_data \<Rightarrow> string \<Rightarrow> string
     \<Rightarrow> py_error + initial_conditions" where
  "get_initial_conditions_fest_ewb lai_data weather_data satellite crop_type soil_type =
     (if weather_data = [] \<or> lai_data = []
      then Inr (get_default_initial_conditions crop_type soil_type)
      else
        let recent_weather = last_n 14 weather_data;
            total_rainfall = sum_list (map (\<lambda>day. opt_get (obs_rainfall day) 0) recent_weather);
            avg_temperature = np_mean (map (\<lambda>day. opt_get (obs_temperature day) 20) recent_weather);
            avg_humidity = np_mean (map (\<lambda>day. opt_get (obs_humidity day) 50) recent_weather);
            avg_solar_radiation =
              np_mean (map (\<lambda>day. opt_get (obs_solar_radiation day) 20) recent_weather);
            soil = soil_of soil_type;
            crop = crop_of crop_type;
            fc = field_capacity soil;
            wp = wilting_point soil
        in bind_err
             (calculate_reference_et_penman_monteith avg_temperature avg_humidity
                avg_solar_radiation)
             (\<lambda>et0_daily.
                let total_et = et0_daily * real (length recent_weather)
                                 * kc_mid_season (kc_values crop);
                    water_input = total_rainfall;
                    water_loss = total_et;
                    net_water = water_input - water_loss;
                    root_depth_mm = rooting_depth crop * 1000;
                    moisture_change = net_water / root_depth_mm;
                    base_moisture = fc * (8 / 10);
                    current_moisture = max wp (min fc (base_moisture + moisture_change))
                in case obs_lai (last lai_data) of
                     None \<Rightarrow> Inl KeyError
                   | Some current_lai \<Rightarrow>
                       let current_ndvi = np_mean (opt_get (sat_ndvi satellite) [6 / 10]);
                           albedo = 23 / 100 - 15 / 100 * current_ndvi + 5 / 100 * current_ndvi ^ 2;
                           albedo = max (1 / 10) (min (4 / 10) albedo)
                       in Inr \<lparr>soil_water_content = py_round current_moisture 4,
                                ic_field_capacity = fc,
                                ic_wilting_point = wp,
                                ic_lai = py_round current_lai 2,
                                ic_ndvi = py_round current_ndvi 3,
                                ic_albedo = py_round albedo 3,
                                root_zone_depth = rooting_depth crop,
                                ic_canopy_cover = min 1 (current_lai / 3),
                                days_since_rain = calculate_days_since_rain weather_data,
                                growing_degree_days = calculate_growing_degree_days recent_weather,
                                water_balance = py_round net_water 2,
                                last_irrigation = None,
                                soil_temperature = avg_temperature - 2,
                                ic_stress_threshold = None\<rparr>))"

record vegetation_params =
  vp_ndvi :: real
  vp_evi :: real
  vp_lai :: real
  vp_albedo :: real
  vp_canopy_cover :: real
  vegetation_height :: real
  ndvi_trend :: string
  vegetation_health :: string
  leaf_area_density :: real
  green_vegetation_fraction :: real

definition extract_vegetation_parameters ::
  "satellite_data \<Rightarrow> lai_obs list \<Rightarrow> string \<Rightarrow> py_error + vegetation_params" where
  "extract_vegetation_parameters satellite lai_data crop_type =
     (let ndvi_values = opt_get (sat_ndvi satellite) [6 / 10];
          evi_values = opt_get (sat_evi satellite) [4 / 10];
          current_ndvi = (if 5 \<le> length ndvi_values then np_mean (last_n 5 ndvi_values)
                          else np_mean ndvi_values);
          current_evi = (if 5 \<le> length evi_values then np_mean (last_n 5 evi_values)
                         else np_mean evi_values)
      in bind_err
           (if lai_data \<noteq> []
            then (case obs_lai (last lai_data) of None \<Rightarrow> Inl KeyError | Some l \<Rightarrow> Inr l)
            else Inr (estimate_lai_from_ndvi current_ndvi))
           (\<lambda>current_lai.
              let albedo = calculate_albedo_from_ndvi current_ndvi;
                  canopy_cover = calculate_canopy_cover current_lai;
                  height = estimate_vegetation_height crop_type current_lai;
                  trend = calculate_ndvi_trend ndvi_values;
                  health = assess_vegetation_health current_ndvi current_evi current_lai
              in Inr \<lparr>vp_ndvi = py_round current_ndvi 3,
                       vp_evi = py_round current_evi 3,
                       vp_lai = py_round current_lai 2,
                       vp_albedo = py_round albedo 3,
                       vp_canopy_cover = py_round canopy_cover 3,
                       vegetation_height = py_round height 2,
                       ndvi_trend = trend,
                       vegetation_health = health,
                       leaf_area_density =
                         py_round (if 0 < height then current_lai / height else 0) 2,
                       green_vegetation_fraction = py_round (min 1 (current_ndvi / (8 / 10))) 3\<rparr>))"

section \<open>Forecast generation\<close>

record WeatherData =
  wd_date :: int
  temperature :: real
  humidity :: real
  rainfall :: real
  wind_speed :: real
  solar_radiation :: real

record seasonal_trends =
  temperature_trend :: real
  humidity_trend :: real

definition analyze_seasonal_patterns :: "weather_obs list \<Rightarrow> seasonal_trends" where
  "analyze_seasonal_patterns weather_data =
     (if length weather_data < 30 then \<lparr>temperature_trend = 0, humidity_trend = 0\<rparr>
      else
        let temperatures = map (\<lambda>d. opt_get (obs_temperature d) 20) (last_n 30 weather_data);
            temp_trend = (last temperatures - hd temperatures) / 30;
            humidities = map (\<lambda>d. opt_get (obs_humidity d) 50) (last_n 30 weather_data);
            hum_trend = (last humidities - hd humidities) / 30
        in \<lparr>temperature_trend = temp_trend, humidity_trend = hum_trend\<rparr>)"

definition get_default_weather_forecast :: "clock \<Rightarrow> WeatherData list" where
  "get_default_weather_forecast clk =
     (let base_date = clk 0
      in map (\<lambda>day. \<lparr>wd_date = day_number (base_date + days (real day + 1)),
                      temperature = 22 + real day,
                      humidity = 60 - real day * 5,
                      rainfall = (if day = 1 then 2 else 0),
                      wind_speed = 2,
                      solar_radiation = 20\<rparr>) [0, 1, 2])"

text \<open>
  One pass of the loop over \<^verbatim>\<open>range(3)\<close>: the five draws, in the order of the source,
  each from the state the previous one left.
\<close>

definition forecast_day ::
  "real \<Rightarrow> seasonal_trends \<Rightarrow> weather_obs list \<Rightarrow> nat \<Rightarrow> rng_state
     \<Rightarrow> py_error + (WeatherData \<times> rng_state)" where
  "forecast_day base_date trends recent_data day g =
     (let base_temp = np_mean (map (\<lambda>d. opt_get (obs_temperature d) 20) recent_data);
          base_humidity = np_mean (map (\<lambda>d. opt_get (obs_humidity d) 50) recent_data);
          base_rainfall = np_mean (map (\<lambda>d. opt_get (obs_rainfall d) 0) recent_data);
          base_wind = np_mean (map (\<lambda>d. opt_get (obs_wind_speed d) 2) recent_data);
          base_solar = np_mean (map (\<lambda>d. opt_get (obs_solar_radiation d) 20) recent_data);
          temp_adjustment = temperature_trend trends * real day;
          humidity_adjustment = humidity_trend trends * real day
      in bind_err (random_normal g 0 (25 / 10)) (\<lambda>(temp_variation, g1).
         bind_err (random_normal g1 0 8) (\<lambda>(humidity_variation, g2).
         bind_err (random_exponential g2 (base_rainfall * (8 / 10))) (\<lambda>(rain_draw, g3).
         bind_err (random_normal g3 base_wind (base_wind * (3 / 10))) (\<lambda>(wind_draw, g4).
         bind_err (random_normal g4 base_solar (base_solar * (2 / 10))) (\<lambda>(solar_draw, g5).
           let rainfall_variation = max 0 rain_draw;
               wind_variation = max (5 / 10) wind_draw;
               solar_variation = max 5 solar_draw
           in Inr (\<lparr>wd_date = day_number (base_date + days (real day + 1)),
                     temperature = py_round (base_temp + temp_adjustment + temp_variation) 1,
                     humidity = py_round (max 20 (min 100
                                  (base_humidity + humidity_adjustment + humidity_variation))) 1,
                     rainfall = py_round rainfall_variation 1,
                     wind_speed = py_round wind_variation 1,
                     solar_radiation = py_round solar_variation 1\<rparr>, g5)))))))"

fun forecast_loop ::
  "real \<Rightarrow> seasonal_trends \<Rightarrow> weather_obs list \<Rightarrow> nat list \<Rightarrow> rng_state
     \<Rightarrow> py_error + (WeatherData list \<times> rng_state)" where
  "forecast_loop base_date trends recent_data [] g = Inr ([], g)"
| "forecast_loop base_date trends recent_data (day # rest) g =
     bind_err (forecast_day base_date trends recent_data day g) (\<lambda>(w, g').
     bind_err (forecast_loop base_date trends recent_data rest g') (\<lambda>(ws, g'').
       Inr (w # ws, g'')))"

text \<open>
  \<^verbatim>\<open>_generate_meteorological_forecast(self, weather_data)\<close> has no generator among its
  parameters: it draws from the global state, which the model takes and returns.
\<close>

definition generate_meteorological_forecast ::
  "clock \<Rightarrow> rng_state \<Rightarrow> weather_obs list \<Rightarrow> py_error + (WeatherData list \<times> rng_state)" where
  "generate_meteorological_forecast clk g weather_data =
     (if weather_data = [] then Inr (get_default_weather_forecast clk, g)
      else
        let recent_data = last_n 14 weather_data;
            trends = analyze_seasonal_patterns weather_data;
            base_date = clk 0
        in forecast_loop base_date trends recent_data [0, 1, 2] g)"

section \<open>Hydrological simulation\<close>

record SoilMoistureData =
  smd_datetime :: real
  soil_moisture :: real
  smd_field_capacity :: real
  smd_wilting_point :: real
  stress_threshold :: real
  deficit :: real
  depth_cm :: real

text \<open>What one pass of the hourly loop computes: its water balance terms and the point it emits.\<close>

record hour_balance =
  hb_crop_et :: real
  hb_infiltration :: real
  hb_runoff :: real
  hb_deep_percolation :: real
  hb_new_moisture :: real
  hb_emitted :: SoilMoistureData

definition weather_for_hour :: "WeatherData list \<Rightarrow> nat \<Rightarrow> py_error + WeatherData" where
  "weather_for_hour weather_forecast hour =
     (let day_index = hour div 24
      in if day_index < length weather_forecast then Inr (weather_forecast ! day_index)
         else if weather_forecast = [] then Inl IndexError
         else Inr (last weather_forecast))"

text \<open>
  The loop body, with the percolation term as a parameter \<open>perc\<close>: the service passes
  \<open>calculate_deep_percolation\<close>. It is written in two parts: the reads that can raise
  (the day's forecast record, the evapotranspiration), and the water balance that follows
  them.
\<close>

definition water_balance_step ::
  "(real \<Rightarrow> real \<Rightarrow> real \<Rightarrow> real) \<Rightarrow> clock \<Rightarrow> initial_conditions \<Rightarrow> WeatherData
     \<Rightarrow> vegetation_params \<Rightarrow> string \<Rightarrow> string \<Rightarrow> nat \<Rightarrow> real \<Rightarrow> real \<Rightarrow> hour_balance" where
  "water_balance_step perc clk ic weather veg crop_type soil_type hour current_moisture
       et0_hourly =
     (let crop = crop_of crop_type;
          soil = soil_of soil_type;
          fc = field_capacity soil;
          wp = wilting_point soil;
          root_depth = rooting_depth crop;
          hourly_precipitation = rainfall weather / 24;
          kc = get_crop_coefficient crop_type (vp_lai veg);
          crop_et = et0_hourly * kc;
          infiltration = min hourly_precipitation (infiltration_rate soil);
          runoff = max 0 (hourly_precipitation - infiltration);
          deep_percolation = perc current_moisture fc (hydraulic_conductivity soil);
          moisture_change = (infiltration - crop_et - deep_percolation) / (root_depth * 1000);
          new_moisture = max wp (min fc (current_moisture + moisture_change));
          threshold = opt_get (ic_stress_threshold ic) (fc - p crop * (fc - wp));
          dfc = max 0 (fc - new_moisture)
      in \<lparr>hb_crop_et = crop_et,
          hb_infiltration = infiltration,
          hb_runoff = runoff,
          hb_deep_percolation = deep_percolation,
          hb_new_moisture = new_moisture,
          hb_emitted =
            \<lparr>smd_datetime = clk hour + hours (real hour),
             soil_moisture = py_round new_moisture 4,
             smd_field_capacity = fc,
             smd_wilting_point = wp,
             stress_threshold = threshold,
             deficit = py_round dfc 4,
             depth_cm = root_depth * 100\<rparr>\<rparr>)"

definition hourly_et0_of :: "WeatherData \<Rightarrow> nat \<Rightarrow> py_error + real" where
  "hourly_et0_of weather hour =
     (let hourly_temp = temperature weather + 5 * sin (2 * pi * real (hour mod 24) / 24);
          hourly_humidity = humidity weather;
          hourly_wind = wind_speed weather;
          hourly_solar = solar_radiation weather * max 0 (sin (pi * real (hour mod 24) / 12))
      in calculate_hourly_et0 hourly_temp hourly_humidity hourly_wind hourly_solar)"

definition hydro_hour_with ::
  "(real \<Rightarrow> real \<Rightarrow> real \<Rightarrow> real) \<Rightarrow> clock \<Rightarrow> initial_conditions \<Rightarrow> WeatherData list
     \<Rightarrow> vegetation_params \<Rightarrow> string \<Rightarrow> string \<Rightarrow> nat \<Rightarrow> real \<Rightarrow> py_error + hour_balance" where
  "hydro_hour_with perc clk ic weather_forecast veg crop_type soil_type hour current_moisture =
     bind_err (weather_for_hour weather_forecast hour) (\<lambda>weather.
     bind_err (hourly_et0_of weather hour) (\<lambda>et0_hourly.
       Inr (water_balance_step perc clk ic weather veg crop_type soil_type hour
              current_moisture et0_hourly)))"

fun hydro_loop_with ::
  "(real \<Rightarrow> real \<Rightarrow> real \<Rightarrow> real) \<Rightarrow> clock \<Rightarrow> initial_conditions \<Rightarrow> WeatherData list
     \<Rightarrow> vegetation_params \<Rightarrow> string \<Rightarrow> string \<Rightarrow> nat list \<Rightarrow> real
     \<Rightarrow> py_error + hour_balance list" where
  "hydro_loop_with perc clk ic wfc veg crop_type soil_type [] current_moisture = Inr []"
| "hydro_loop_with perc clk ic wfc veg crop_type soil_type (hour # rest) current_moisture =
     bind_err (hydro_hour_with perc clk ic wfc veg crop_type soil_type hour current_moisture)
       (\<lambda>b. bind_err
               (hydro_loop_with perc clk ic wfc veg crop_type soil_type rest (hb_new_moisture b))
               (\<lambda>bs. Inr (b # bs)))"

definition water_balance_trace ::
  "clock \<Rightarrow> initial_conditions \<Rightarrow> WeatherData list \<Rightarrow> vegetation_params \<Rightarrow> string \<Rightarrow> string
     \<Rightarrow> py_error + hour_balance list" where
  "water_balance_trace clk ic wfc veg crop_type soil_type =
     hydro_loop_with calculate_deep_percolation clk ic wfc veg crop_type soil_type
       [0 ..< forecast_horizon] (soil_water_content ic)"

definition run_hydrological_model_fest_ewb ::
  "clock \<Rightarrow> initial_conditions \<Rightarrow> WeatherData list \<Rightarrow> vegetation_params \<Rightarrow> string \<Rightarrow> string
     \<Rightarrow> py_error + SoilMoistureData list" where
  "run_hydrological_model_fest_ewb clk ic wfc veg crop_type soil_type =
     bind_err (water_balance_trace clk ic wfc veg crop_type soil_type)
       (\<lambda>bs. Inr (map hb_emitted bs))"

text \<open>The same simulator with the percolation term removed from the water balance.\<close>

definition run_hydrological_model_without_percolation ::
  "clock \<Rightarrow> initial_conditions \<Rightarrow> WeatherData list \<Rightarrow> vegetation_params \<Rightarrow> string \<Rightarrow> string
     \<Rightarrow> py_error + SoilMoistureData list" where
  "run_hydrological_model_without_percolation clk ic wfc veg crop_type soil_type =
     bind_err
       (hydro_loop_with (\<lambda>moisture fc conductivity. 0) clk ic wfc veg crop_type soil_type
          [0 ..< forecast_horizon] (soil_water_content ic))
       (\<lambda>bs. Inr (map hb_emitted bs))"

section \<open>Stress analysis\<close>

record stress_event =
  se_hour :: nat
  se_datetime :: real
  se_soil_moisture :: real
  se_deficit :: real
  stress_level :: string
  urgency_score :: real

record stress_analysis =
  stress_events :: "stress_event list"
  stress_hours :: real
  stress_percentage :: real
  min_forecasted_moisture :: real
  max_deficit :: real
  critical_periods :: "nat list"
  irrigation_triggered :: bool
  irrigation_urgency :: string
  stress_severity :: string

definition calculate_urgency_score :: "real \<Rightarrow> trigger_points \<Rightarrow> real" where
  "calculate_urgency_score moisture tp =
     (if moisture < tp_critical tp then 1
      else if moisture < tp_high tp then 8 / 10
      else if moisture < tp_medium tp then 6 / 10
      else if moisture < tp_low tp then 4 / 10
      else 0)"

definition determine_irrigation_urgency :: "stress_event list \<Rightarrow> nat list \<Rightarrow> string" where
  "determine_irrigation_urgency events periods =
     (if 12 < length periods then ''critical''
      else if 0 < length periods then ''high''
      else if 24 < length events then ''medium''
      else if 0 < length events then ''low''
      else ''none'')"

definition classify_overall_stress_severity :: "stress_event list \<Rightarrow> string" where
  "classify_overall_stress_severity events =
     (if events = [] then ''none''
      else
        let critical_count = length (filter (\<lambda>e. stress_level e = ''critical'') events);
            high_count = length (filter (\<lambda>e. stress_level e = ''high'') events)
        in if 6 < critical_count then ''critical''
           else if 0 < critical_count \<or> 12 < high_count then ''high''
           else if 0 < high_count then ''moderate''
           else ''low'')"

text \<open>
  The accumulators of the classification loop. \<open>acc_min_moisture\<close> starts at
  \<^verbatim>\<open>float('inf')\<close>, written \<open>None\<close>.
\<close>

record stress_acc =
  acc_events :: "stress_event list"
  acc_stress_hours :: real
  acc_min_moisture :: "real option"
  acc_max_deficit :: real
  acc_critical_periods :: "nat list"

definition classify_stress_level :: "real \<Rightarrow> trigger_points \<Rightarrow> string \<times> real" where
  \<comment> \<open>the level of one point and what it adds to \<open>stress_hours\<close>\<close>
  "classify_stress_level moisture tp =
     (if moisture < tp_critical tp then (''critical'', 1)
      else if moisture < tp_high tp then (''high'', 1)
      else if moisture < tp_medium tp then (''medium'', 1)
      else if moisture < tp_low tp then (''low'', 1 / 2)
      else (''none'', 0))"

definition stress_step :: "trigger_points \<Rightarrow> stress_acc \<Rightarrow> nat \<times> SoilMoistureData \<Rightarrow> stress_acc" where
  "stress_step tp acc item =
     (let i = fst item; forecast = snd item;
          moisture = soil_moisture forecast;
          min_moisture = (case acc_min_moisture acc of None \<Rightarrow> moisture
                          | Some m \<Rightarrow> min m moisture);
          dfc = deficit forecast;
          max_d = max (acc_max_deficit acc) dfc;
          level = fst (classify_stress_level moisture tp);
          added = snd (classify_stress_level moisture tp);
          acc1 = acc\<lparr>acc_stress_hours := acc_stress_hours acc + added,
                     acc_min_moisture := Some min_moisture,
                     acc_max_deficit := max_d\<rparr>
      in if level \<noteq> ''none''
         then acc1\<lparr>acc_events := acc_events acc @
                      [\<lparr>se_hour = i, se_datetime = smd_datetime forecast,
                        se_soil_moisture = moisture, se_deficit = dfc,
                        stress_level = level,
                        urgency_score = calculate_urgency_score moisture tp\<rparr>],
                    acc_critical_periods :=
                      (if level = ''high'' \<or> level = ''critical''
                       then acc_critical_periods acc @ [i]
                       else acc_critical_periods acc)\<rparr>
         else acc1)"

definition analyze_stress_conditions_pregi ::
  "SoilMoistureData list \<Rightarrow> stress_threshold_data \<Rightarrow> py_error + stress_analysis" where
  "analyze_stress_conditions_pregi forecast threshold_data =
     (let acc = foldl (stress_step (trigger_points threshold_data))
                  \<lparr>acc_events = [], acc_stress_hours = 0, acc_min_moisture = None,
                   acc_max_deficit = 0, acc_critical_periods = []\<rparr>
                  (zip [0 ..< length forecast] forecast)
      in if length forecast = 0 then Inl ZeroDivisionError
         else Inr \<lparr>stress_events = acc_events acc,
                   stress_hours = acc_stress_hours acc,
                   stress_percentage =
                     py_round (acc_stress_hours acc / real (length forecast) * 100) 1,
                   min_forecasted_moisture =
                     py_round (opt_get (acc_min_moisture acc) 0) 4,
                   max_deficit = py_round (acc_max_deficit acc) 4,
                   critical_periods = acc_critical_periods acc,
                   irrigation_triggered = (0 < length (acc_events acc)),
                   irrigation_urgency =
                     determine_irrigation_urgency (acc_events acc) (acc_critical_periods acc),
                   stress_severity = classify_overall_stress_severity (acc_events acc)\<rparr>)"

section \<open>Irrigation schedule\<close>

record IrrigationEvent =
  ev_datetime :: real
  ev_water_amount :: real
  irrigation_type :: string
  duration :: real
  ev_efficiency :: real
  cost :: "real option"

record IrrigationSchedule =
  schedule_date :: int
  recommended_events :: "IrrigationEvent list"
  total_water_needed :: real
  urgency_level :: string
  next_irrigation_time :: "real option"
  monitoring_frequency :: string

text \<open>
  A formatted text is a list of pieces: literal strings, and numbers with the digits
  after the point that the format asks for.
\<close>

datatype piece = Str string | Fixed real nat

record IrrigationRecommendation =
  needs_irrigation :: bool
  confidence :: real
  reasoning :: "piece list"
  water_amount :: "real option"
  irrigation_method :: "string option"
  timing :: "string option"
  schedule :: "IrrigationSchedule option"
  cost_estimate :: "real option"
  water_savings :: "real option"
  yield_impact :: "string option"
  environmental_impact :: "string option"

record irrigation_requirements =
  net_water_needed :: real
  gross_water_needed :: real
  total_water :: real
  moisture_deficit :: real
  application_efficiency :: real

definition calculate_irrigation_requirements ::
  "stress_analysis \<Rightarrow> initial_conditions \<Rightarrow> string \<Rightarrow> string \<Rightarrow> irrigation_requirements" where
  "calculate_irrigation_requirements stress ic crop_type soil_type =
     (let crop = crop_of crop_type;
          soil = soil_of soil_type;
          fc = field_capacity soil;
          current_moisture = soil_water_content ic;
          root_depth = rooting_depth crop;
          dfc = fc - current_moisture;
          water_needed_mm = dfc * root_depth * 1000;
          eff = 85 / 100;
          gross = water_needed_mm / eff;
          gross = (if stress_severity stress = ''critical'' then gross * (12 / 10)
                   else if stress_severity stress = ''high'' then gross * (11 / 10)
                   else gross)
      in \<lparr>net_water_needed = py_round water_needed_mm 1,
          gross_water_needed = py_round gross 1,
          total_water = py_round gross 1,
          moisture_deficit = py_round dfc 4,
          application_efficiency = eff\<rparr>)"

definition irrigation_event :: "real \<Rightarrow> real \<Rightarrow> string \<Rightarrow> system_params \<Rightarrow> IrrigationEvent" where
  \<comment> \<open>the constructor call the four branches of the planner share\<close>
  "irrigation_event instant amount irrigation_system sys =
     \<lparr>ev_datetime = instant,
      ev_water_amount = amount,
      irrigation_type = irrigation_system,
      duration = amount / application_rate sys,
      ev_efficiency = efficiency sys,
      cost = Some (amount * cost_per_mm sys)\<rparr>"

definition plan_irrigation_events ::
  "clock \<Rightarrow> stress_analysis \<Rightarrow> irrigation_requirements \<Rightarrow> string \<Rightarrow> WeatherData list
     \<Rightarrow> IrrigationEvent list" where
  "plan_irrigation_events clk stress req irrigation_system wfc =
     (let sys = system_of irrigation_system;
          total = total_water req;
          urgency = irrigation_urgency stress
      in if urgency = ''critical''
         then [irrigation_event (clk 0 + hours 1) total irrigation_system sys]
         else if urgency = ''high''
         then (let first_amount = total * (6 / 10);
                   second_amount = total * (4 / 10)
               in [irrigation_event (clk 0 + hours 2) first_amount irrigation_system sys,
                   irrigation_event (clk 1 + hours 24) second_amount irrigation_system sys])
         else if urgency = ''medium''
         then (let optimal_time = replace_0600 (clk 0) + days 1;
                   optimal_time = (if optimal_time < clk 1 then optimal_time + days 1
                                   else optimal_time)
               in [irrigation_event optimal_time total irrigation_system sys])
         else (let optimal_time = replace_0600 (clk 0) + days 2
               in [irrigation_event optimal_time total irrigation_system sys]))"

definition plan_clock_reads :: "string \<Rightarrow> nat" where
  \<comment> \<open>how many times the planner reads the clock\<close>
  "plan_clock_reads urgency = (if urgency = ''high'' \<or> urgency = ''medium'' then 2 else 1)"

record cost_analysis =
  total_cost :: real
  ca_cost_per_mm :: real
  system_efficiency :: real
  water_cost_savings :: real

definition calculate_irrigation_costs :: "IrrigationEvent list \<Rightarrow> string \<Rightarrow> cost_analysis" where
  "calculate_irrigation_costs events irrigation_system =
     (let total_c = sum_list (map (\<lambda>e. opt_get (cost e) 0) events);
          total_w = sum_list (map ev_water_amount events);
          sys = system_of irrigation_system
      in \<lparr>total_cost = py_round total_c 2,
          ca_cost_per_mm = py_round (if 0 < total_w then total_c / total_w else 0) 3,
          system_efficiency = efficiency sys,
          water_cost_savings = py_round ((1 - efficiency sys) * total_c) 2\<rparr>)"

record efficiency_savings =
  water_savings_percent :: real
  es_yield_impact :: string
  es_environmental_impact :: string

definition calculate_water_efficiency_savings ::
  "irrigation_requirements \<Rightarrow> string \<Rightarrow> string \<Rightarrow> efficiency_savings" where
  "calculate_water_efficiency_savings req irrigation_system crop_type =
     (let sys = system_of irrigation_system;
          flood_efficiency = efficiency flood;
          current_efficiency = efficiency sys;
          pct = (current_efficiency - flood_efficiency) / flood_efficiency * 100
      in \<lparr>water_savings_percent = py_round (max 0 pct) 1,
          es_yield_impact = ''Positive - optimized water application maintains crop health'',
          es_environmental_impact =
            (if 20 < pct
             then ''Highly positive - significant water conservation and reduced runoff''
             else if 10 < pct then ''Positive - moderate water conservation''
             else ''Neutral - standard water usage'')\<rparr>)"

definition determine_optimal_timing :: "stress_analysis \<Rightarrow> WeatherData list \<Rightarrow> string" where
  "determine_optimal_timing stress wfc =
     (let urgency = irrigation_urgency stress
      in if urgency = ''critical'' then ''Immediate irrigation required''
         else if urgency = ''high'' then ''Irrigate within 2-4 hours''
         else if urgency = ''medium''
         then ''Irrigate within 12-24 hours (preferably early morning)''
         else ''Irrigate within 24-48 hours during optimal conditions'')"

definition generate_irrigation_schedule ::
  "clock \<Rightarrow> stress_analysis \<Rightarrow> initial_conditions \<Rightarrow> WeatherData list \<Rightarrow> string \<Rightarrow> string
     \<Rightarrow> string \<Rightarrow> IrrigationRecommendation" where
  "generate_irrigation_schedule clk stress ic wfc crop_type soil_type irrigation_system =
     (let needs = irrigation_triggered stress;
          confidence_base = 75
      in if \<not> needs
         then \<lparr>needs_irrigation = False,
               confidence = confidence_base + 15,
               reasoning = [Str (''No water stress detected in 72-hour forecast. '' @
                                 ''Current soil moisture levels are adequate.'')],
               water_amount = Some 0,
               irrigation_method = Some ''None required'',
               timing = Some ''Monitor conditions'',
               schedule = None,
               cost_estimate = Some 0,
               water_savings = Some 100,
               yield_impact = Some ''No impact expected'',
               environmental_impact = Some ''Positive - water conservation''\<rparr>
         else
           let req = calculate_irrigation_requirements stress ic crop_type soil_type;
               events = plan_irrigation_events clk stress req irrigation_system wfc;
               sched = \<lparr>schedule_date =
                          day_number (clk (plan_clock_reads (irrigation_urgency stress))),
                        recommended_events = events,
                        total_water_needed = total_water req,
                        urgency_level = irrigation_urgency stress,
                        next_irrigation_time =
                          (if events \<noteq> [] then Some (ev_datetime (hd events)) else None),
                        monitoring_frequency =
                          (if irrigation_urgency stress = ''high''
                              \<or> irrigation_urgency stress = ''critical''
                           then ''hourly'' else ''daily'')\<rparr>;
               costs = calculate_irrigation_costs events irrigation_system;
               savings = calculate_water_efficiency_savings req irrigation_system crop_type;
               text = [Str ''Water stress detected for '', Fixed (stress_hours stress) 1,
                       Str '' hours in 72h forecast'', Str ''. '',
                       Str ''Maximum soil moisture deficit: '', Fixed (max_deficit stress) 3,
                       Str ''. '',
                       Str ''Irrigation urgency: '', Str (irrigation_urgency stress), Str ''. '',
                       Str ''Recommended method: '', Str irrigation_system, Str '' irrigation'',
                       Str ''.''];
               conf = confidence_base
                        + (if stress_severity stress = ''critical'' then 15
                           else if stress_severity stress = ''high'' then 10
                           else if stress_severity stress = ''moderate'' then 5
                           else 0)
           in \<lparr>needs_irrigation = True,
               confidence = min 95 conf,
               reasoning = text,
               water_amount = Some (total_water req),
               irrigation_method = Some irrigation_system,
               timing = Some (determine_optimal_timing stress wfc),
               schedule = Some sched,
               cost_estimate = Some (total_cost costs),
               water_savings = Some (water_savings_percent savings),
               yield_impact = Some (es_yield_impact savings),
               environmental_impact = Some (es_environmental_impact savings)\<rparr>)"

section \<open>The analysis call\<close>

record efficiency_analysis =
  efficiency_score :: real
  optimization_opportunities :: "string list"
  water_use_index :: real
  sustainability_rating :: string

definition analyze_water_efficiency ::
  "IrrigationRecommendation \<Rightarrow> stress_analysis \<Rightarrow> string \<Rightarrow> string \<Rightarrow> efficiency_analysis" where
  "analyze_water_efficiency recommendation stress crop_type soil_type =
     (if \<not> needs_irrigation recommendation
      then \<lparr>efficiency_score = 100,
            optimization_opportunities = [''Continue monitoring'', ''Maintain current practices''],
            water_use_index = 0,
            sustainability_rating = ''Excellent''\<rparr>
      else
        let amount = opt_get (water_amount recommendation) 0;
            severity = stress_severity stress;
            base_efficiency = (75::real)
                                + (if severity = ''low'' then 15
                                   else if severity = ''critical'' then - 10 else 0);
            opportunities =
              (if 30 < amount
               then [''Consider split applications to improve efficiency''] else [])
              @ (if severity = ''high'' \<or> severity = ''critical''
                 then [''Implement more frequent monitoring to prevent stress''] else [])
        in \<lparr>efficiency_score = base_efficiency,
            optimization_opportunities = opportunities,
            water_use_index = py_round (amount / 25) 1,
            sustainability_rating =
              (if 85 < base_efficiency then ''Excellent''
               else if base_efficiency < 70 then ''Needs improvement''
               else ''Good'')\<rparr>)"

definition calculate_model_accuracy :: "stress_analysis \<Rightarrow> real" where
  "calculate_model_accuracy stress =
     (let n = length (stress_events stress);
          base_accuracy = (85::real) + (if 0 < n then min 10 (real n / 5) else 0)
      in min 95 base_accuracy)"

record data_quality =
  overall_quality :: real
  lai_data_points :: nat
  weather_data_points :: nat
  satellite_images :: nat
  quality_rating :: string

definition assess_data_quality ::
  "lai_obs list \<Rightarrow> weather_obs list \<Rightarrow> satellite_data \<Rightarrow> data_quality" where
  "assess_data_quality lai_data weather_data satellite =
     (let ndvi = opt_get (sat_ndvi satellite) [];
          quality_scores =
            (if lai_data \<noteq> [] then [min 100 (real (length lai_data) * 5)] else [])
            @ (if weather_data \<noteq> [] then [min 100 (real (length weather_data) * (333 / 100))]
               else [])
            @ (if ndvi \<noteq> [] then [min 100 (real (length ndvi) * 5)] else []);
          overall = (if quality_scores \<noteq> [] then np_mean quality_scores else 50)
      in \<lparr>overall_quality = py_round overall 1,
          lai_data_points = length lai_data,
          weather_data_points = length weather_data,
          satellite_images = length ndvi,
          quality_rating = (if 85 < overall then ''Excellent''
                            else if 70 < overall then ''Good'' else ''Adequate'')\<rparr>)"

definition check_farm_bounds :: "farm_bounds \<Rightarrow> py_error + farm_bounds" where
  \<comment> \<open>\<^verbatim>\<open>FarmBounds(**farm_bounds)\<close> with its \<^verbatim>\<open>__post_init__\<close>\<close>
  "check_farm_bounds b =
     (if \<not> (- 90 \<le> south b \<and> south b \<le> north b \<and> north b \<le> 90) then Inl ValueError
      else if \<not> (- 180 \<le> west b \<and> west b \<le> east b \<and> east b \<le> 180) then Inl ValueError
      else Inr b)"

record analysis_response =
  analysis_id :: string
  r_timestamp :: real
  r_crop_type :: string
  r_soil_type :: string
  r_irrigation_system :: string
  r_needs_irrigation :: bool
  r_confidence :: real
  r_reasoning :: "piece list"
  r_water_amount :: "real option"
  r_irrigation_method :: "string option"
  r_timing :: "string option"
  r_soil_moisture_forecast :: "SoilMoistureData list"
  r_stress_threshold :: stress_threshold_data
  r_vegetation_parameters :: vegetation_params
  r_weather_forecast :: "WeatherData list"
  r_stress_events :: "stress_event list"
  r_irrigation_schedule :: "IrrigationSchedule option"
  r_next_irrigation :: "real option"
  r_cost_estimate :: "real option"
  r_water_savings :: "real option"
  r_yield_impact :: "string option"
  r_environmental_impact :: "string option"
  r_efficiency_analysis :: efficiency_analysis
  r_processing_time :: real
  r_model_accuracy :: real
  r_data_quality :: data_quality

record fallback_response =
  fb_analysis_id :: int
  fb_timestamp :: real
  fb_needs_irrigation :: bool
  fb_confidence :: real
  fb_reasoning :: string
  fb_water_amount :: "real option"
  fb_irrigation_method :: "string option"
  fb_timing :: "string option"
  fb_cost_estimate :: "real option"
  fb_water_savings :: "real option"
  fb_yield_impact :: string
  fb_environmental_impact :: string
  fb_processing_time :: real
  fb_model_accuracy :: real
  fb_error :: string

datatype response = Analysis analysis_response | Fallback fallback_response

definition py_int :: "real \<Rightarrow> int" where
  "py_int x = (if 0 \<le> x then \<lfloor>x\<rfloor> else \<lceil>x\<rceil>)"

definition get_fallback_irrigation_recommendation :: "clock \<Rightarrow> fallback_response" where
  "get_fallback_irrigation_recommendation clk =
     \<lparr>fb_analysis_id = py_int (clk 0),
      fb_timestamp = clk 1,
      fb_needs_irrigation = False,
      fb_confidence = 50,
      fb_reasoning =
        ''Unable to complete smart irrigation analysis. Manual inspection recommended.'',
      fb_water_amount = None,
      fb_irrigation_method = None,
      fb_timing = None,
      fb_cost_estimate = None,
      fb_water_savings = None,
      fb_yield_impact = ''Analysis incomplete'',
      fb_environmental_impact = ''Unknown'',
      fb_processing_time = 0,
      fb_model_accuracy = 0,
      fb_error = ''Analysis failed - insufficient data or system error''\<rparr>"

text \<open>
  What one call finds around it: the readings of the clock each stage makes, the
  identifier and the date a fresh \<^verbatim>\<open>IrrigationAnalysis\<close> gets, and the global state of
  the random generator at entry.
\<close>

record environment =
  start_time :: real
  forecast_clock :: clock
  hydro_clock :: clock
  schedule_clock :: clock
  end_time :: real
  fresh_uuid :: string
  utc_now :: real
  fallback_clock :: clock
  global_rng :: rng_state

text \<open>The body of the \<^verbatim>\<open>try\<close> block of \<^verbatim>\<open>analyze_smart_irrigation\<close>.\<close>

definition analysis_steps ::
  "environment \<Rightarrow> lai_obs list \<Rightarrow> weather_obs list \<Rightarrow> satellite_data \<Rightarrow> farm_bounds
     \<Rightarrow> string \<Rightarrow> string \<Rightarrow> string \<Rightarrow> py_error + analysis_response" where
  "analysis_steps env lai_data weather_data satellite bounds crop_type soil_type
       irrigation_system =
     bind_err (get_initial_conditions_fest_ewb lai_data weather_data satellite crop_type
                 soil_type) (\<lambda>ic.
     bind_err (extract_vegetation_parameters satellite lai_data crop_type) (\<lambda>veg.
     bind_err (calculate_stress_threshold_fao56 crop_type soil_type (Some (vp_lai veg)))
       (\<lambda>threshold_data.
     bind_err (generate_meteorological_forecast (forecast_clock env) (global_rng env)
                 weather_data) (\<lambda>(wfc, g).
     bind_err (run_hydrological_model_fest_ewb (hydro_clock env) ic wfc veg crop_type
                 soil_type) (\<lambda>moisture_forecast.
     bind_err (analyze_stress_conditions_pregi moisture_forecast threshold_data) (\<lambda>stress.
       let recommendation =
             generate_irrigation_schedule (schedule_clock env) stress ic wfc crop_type
               soil_type irrigation_system;
           eff = analyze_water_efficiency recommendation stress crop_type soil_type
       in bind_err (check_farm_bounds bounds) (\<lambda>checked.
            Inr \<lparr>analysis_id = fresh_uuid env,
                 r_timestamp = utc_now env,
                 r_crop_type = crop_type,
                 r_soil_type = soil_type,
                 r_irrigation_system = irrigation_system,
                 r_needs_irrigation = needs_irrigation recommendation,
                 r_confidence = confidence recommendation,
                 r_reasoning = reasoning recommendation,
                 r_water_amount = water_amount recommendation,
                 r_irrigation_method = irrigation_method recommendation,
                 r_timing = timing recommendation,
                 r_soil_moisture_forecast = moisture_forecast,
                 r_stress_threshold = threshold_data,
                 r_vegetation_parameters = veg,
                 r_weather_forecast = wfc,
                 r_stress_events = stress_events stress,
                 r_irrigation_schedule = schedule recommendation,
                 r_next_irrigation =
                   (case schedule recommendation of None \<Rightarrow> None
                    | Some s \<Rightarrow> next_irrigation_time s),
                 r_cost_estimate = cost_estimate recommendation,
                 r_water_savings = water_savings recommendation,
                 r_yield_impact = yield_impact recommendation,
                 r_environmental_impact = environmental_impact recommendation,
                 r_efficiency_analysis = eff,
                 r_processing_time = end_time env - start_time env,
                 r_model_accuracy = calculate_model_accuracy stress,
                 r_data_quality = assess_data_quality lai_data weather_data satellite\<rparr>)))))))"

definition analyze_smart_irrigation ::
  "environment \<Rightarrow> lai_obs list \<Rightarrow> weather_obs list \<Rightarrow> satellite_data \<Rightarrow> farm_bounds
     \<Rightarrow> string \<Rightarrow> string \<Rightarrow> string \<Rightarrow> response" where
  "analyze_smart_irrigation env lai_data weather_data satellite bounds crop_type soil_type
       irrigation_system =
     (case analysis_steps env lai_data weather_data satellite bounds crop_type soil_type
             irrigation_system of
        Inl e \<Rightarrow> Fallback (get_fallback_irrigation_recommendation (fallback_clock env))
      | Inr r \<Rightarrow> Analysis r)"

section \<open>The description of the trend that the forecast is compared with\<close>

text \<open>
  The least-squares slope of the values \<open>ys\<close> against their positions \<open>0, 1, 2, \<dots>\<close>:
  the linear-regression slope of a daily series.
\<close>

definition regression_slope :: "real list \<Rightarrow> real" where
  "regression_slope ys =
     (let n = length ys;
          xs = map real [0 ..< n];
          x_mean = sum_list xs / real n;
          y_mean = sum_list ys / real n
      in sum_list (map (\<lambda>(x, y). (x - x_mean) * (y - y_mean)) (zip xs ys))
           / sum_list (map (\<lambda>x. (x - x_mean) ^ 2) xs))"

section \<open>Auxiliary definitions for the proofs\<close>

text \<open>The soil moisture after one hour, written out.\<close>

definition new_moisture_of :: "real \<Rightarrow> real \<Rightarrow> real \<Rightarrow> real \<Rightarrow> string \<Rightarrow> string \<Rightarrow> real" where
  "new_moisture_of cur rain et dp c s =
     max (wilting_point (soil_of s)) (min (field_capacity (soil_of s))
       (cur + (min (rain / 24) (infiltration_rate (soil_of s)) - et - dp)
                / (rooting_depth (crop_of c) * 1000)))"

text \<open>A set of vegetation parameters for the instances below.\<close>

definition some_veg :: vegetation_params where
  "some_veg = \<lparr>vp_ndvi = 6 / 10, vp_evi = 4 / 10, vp_lai = 25 / 10, vp_albedo = 2 / 10,
     vp_canopy_cover = 7 / 10, vegetation_height = 1, ndvi_trend = ''stable'',
     vegetation_health = ''good'', leaf_area_density = 25 / 10,
     green_vegetation_fraction = 75 / 100\<rparr>"

text \<open>A forecast without rain and a soil at its wilting point, for the instances below.\<close>

definition dry_forecast :: "WeatherData list" where
  "dry_forecast =
     [\<lparr>wd_date = 1, temperature = 30, humidity = 20, rainfall = 0, wind_speed = 2,
       solar_radiation = 25\<rparr>,
      \<lparr>wd_date = 2, temperature = 31, humidity = 20, rainfall = 0, wind_speed = 2,
       solar_radiation = 25\<rparr>,
      \<lparr>wd_date = 3, temperature = 32, humidity = 20, rainfall = 0, wind_speed = 2,
       solar_radiation = 25\<rparr>]"

definition parched_conditions :: initial_conditions where
  "parched_conditions =
     (get_default_initial_conditions ''asparagus'' ''loamy'')\<lparr>soil_water_content := 15 / 100\<rparr>"

text \<open>A day of weather history, for the instances below.\<close>

definition mild_day :: weather_obs where
  "mild_day = \<lparr>obs_temperature = Some 20, obs_humidity = Some 50, obs_rainfall = Some 1,
     obs_wind_speed = Some 2, obs_solar_radiation = Some 20\<rparr>"

text \<open>A forecast point, thresholds, an environment and farm bounds for the instances below.\<close>

definition moist_point :: SoilMoistureData where
  "moist_point = \<lparr>smd_datetime = 0, soil_moisture = 30 / 100, smd_field_capacity = 35 / 100,
     smd_wilting_point = 15 / 100, stress_threshold = 22 / 100, deficit = 5 / 100,
     depth_cm = 120\<rparr>"

definition scenario_thresholds :: stress_threshold_data where
  "scenario_thresholds =
     \<lparr>theta_critical = 22 / 100, theta_critical_base = 22 / 100,
      std_field_capacity = 35 / 100, std_wilting_point = 15 / 100,
      TAW = 20 / 100, RAW = 13 / 100, surplus_threshold = 35 / 100,
      depletion_fraction_p = 65 / 100, mad_percentage = 65, vegetation_adjustment = 1,
      trigger_points = \<lparr>tp_low = 24 / 100, tp_medium = 22 / 100, tp_high = 21 / 100,
                         tp_critical = 17 / 100\<rparr>\<rparr>"

definition quiet_environment :: environment where
  "quiet_environment =
     \<lparr>start_time = 0, forecast_clock = (\<lambda>k. 0), hydro_clock = (\<lambda>k. 0),
      schedule_clock = (\<lambda>k. 0), end_time = 1, fresh_uuid = ''id'', utc_now = 0,
      fallback_clock = (\<lambda>k. 1700000000), global_rng = (\<lambda>k. 0)\<rparr>"

definition unit_square :: farm_bounds where
  "unit_square = \<lparr>north = 1, south = 0, east = 1, west = 0\<rparr>"

text \<open>
  The forecast written out: the trend between the two ends of the last 30 values, the
  scales that make a draw raise, and the entry for the day with index \<open>i\<close> from five variates.
\<close>

definition endpoint_trend :: "real list \<Rightarrow> real" where
  "endpoint_trend ys =
     (if length ys < 30 then 0 else (last ys - ys ! (length ys - 30)) / 30)"

definition negative_scale :: "weather_obs list \<Rightarrow> bool" where
  "negative_scale recent_data =
     (np_mean (map (\<lambda>d. opt_get (obs_rainfall d) 0) recent_data) * (8 / 10) < 0 \<or>
      np_mean (map (\<lambda>d. opt_get (obs_wind_speed d) 2) recent_data) * (3 / 10) < 0 \<or>
      np_mean (map (\<lambda>d. opt_get (obs_solar_radiation d) 20) recent_data) * (2 / 10) < 0)"

definition forecast_entry ::
  "real \<Rightarrow> seasonal_trends \<Rightarrow> weather_obs list \<Rightarrow> nat \<Rightarrow> rng_state \<Rightarrow> WeatherData" where
  "forecast_entry base_date trends recent_data i z =
     \<lparr>wd_date = day_number (base_date + days (real i + 1)),
      temperature = py_round (np_mean (map (\<lambda>d. opt_get (obs_temperature d) 20) recent_data)
                      + temperature_trend trends * real i + 25 / 10 * z 0) 1,
      humidity = py_round (max 20 (min 100
                      (np_mean (map (\<lambda>d. opt_get (obs_humidity d) 50) recent_data)
                         + humidity_trend trends * real i + 8 * z 1))) 1,
      rainfall = py_round (max 0
                      (np_mean (map (\<lambda>d. opt_get (obs_rainfall d) 0) recent_data) * (8 / 10)
                         * z 2)) 1,
      wind_speed = py_round (max (5 / 10)
                      (np_mean (map (\<lambda>d. opt_get (obs_wind_speed d) 2) recent_data)
                         + np_mean (map (\<lambda>d. opt_get (obs_wind_speed d) 2) recent_data)
                             * (3 / 10) * z 3)) 1,
      solar_radiation = py_round (max 5
                      (np_mean (map (\<lambda>d. opt_get (obs_solar_radiation d) 20) recent_data)
                         + np_mean (map (\<lambda>d. opt_get (obs_solar_radiation d) 20) recent_data)
                             * (2 / 10) * z 4)) 1\<rparr>"

text \<open>Thirty days whose temperature rises by one degree a day.\<close>

definition linear_history :: "weather_obs list" where
  "linear_history =
     map (\<lambda>i. \<lparr>obs_temperature = Some (real i), obs_humidity = None, obs_rainfall = None,
                obs_wind_speed = None, obs_solar_radiation = None\<rparr>) [0 ..< 30]"

text \<open>Three dry days at 0 degrees, where the exponential of the formula is 1.\<close>

definition freezing_forecast :: "WeatherData list" where
  "freezing_forecast =
     [\<lparr>wd_date = 1, temperature = 0, humidity = 0, rainfall = 0, wind_speed = 2,
       solar_radiation = 10\<rparr>,
      \<lparr>wd_date = 2, temperature = 0, humidity = 0, rainfall = 0, wind_speed = 2,
       solar_radiation = 10\<rparr>,
      \<lparr>wd_date = 3, temperature = 0, humidity = 0, rainfall = 0, wind_speed = 2,
       solar_radiation = 10\<rparr>]"

section \<open>Rounding facts\<close>

lemma round_half_even_bounds:
  "y - 1 / 2 \<le> of_int (round_half_even y)" "of_int (round_half_even y) \<le> y + 1 / 2"
  unfolding round_half_even_def Let_def by (auto; linarith)+

lemma py_round_close: "\<bar>py_round x n - x\<bar> \<le> 1 / (2 * 10 ^ n)"
proof -
  define c :: real where "c = 10 ^ n"
  define r :: real where "r = of_int (round_half_even (x * c))"
  have pos: "0 < c" by (simp add: c_def)
  have a: "x * c - 1 / 2 \<le> r" and b: "r \<le> x * c + 1 / 2"
    using round_half_even_bounds [of "x * c"] by (auto simp: r_def)
  have "(x * c - 1 / 2) / c \<le> r / c" using a pos by (simp add: divide_right_mono)
  moreover have "(x * c - 1 / 2) / c = x - 1 / (2 * c)" using pos by (simp add: field_simps)
  moreover have "r / c \<le> (x * c + 1 / 2) / c" using b pos by (simp add: divide_right_mono)
  moreover have "(x * c + 1 / 2) / c = x + 1 / (2 * c)" using pos by (simp add: field_simps)
  moreover have "py_round x n = r / c" by (simp add: py_round_def r_def c_def)
  ultimately show ?thesis unfolding c_def by linarith
qed

lemma round_half_even_int: "round_half_even (of_int k) = k"
  by (simp add: round_half_even_def)

lemma round_half_even_mono:
  assumes "x \<le> y" shows "round_half_even x \<le> round_half_even y"
proof -
  have fl: "\<lfloor>x\<rfloor> \<le> \<lfloor>y\<rfloor>" using assms by (rule floor_mono)
  have lx: "round_half_even x \<le> \<lfloor>x\<rfloor> + 1" and ly: "\<lfloor>y\<rfloor> \<le> round_half_even y"
    by (auto simp: round_half_even_def Let_def)
  show ?thesis
  proof (cases "\<lfloor>x\<rfloor> = \<lfloor>y\<rfloor>")
    case True
    then have "x - of_int \<lfloor>x\<rfloor> \<le> y - of_int \<lfloor>y\<rfloor>" using assms by simp
    then show ?thesis using True
      by (auto simp: round_half_even_def Let_def)
  next
    case False
    then show ?thesis using fl lx ly by linarith
  qed
qed

lemma py_round_mono: "x \<le> y \<Longrightarrow> py_round x n \<le> py_round y n"
  unfolding py_round_def
  by (intro divide_right_mono) (auto intro: round_half_even_mono mult_right_mono)

section \<open>Trigger points are ordered\<close>

lemma py_round4_less:
  assumes "a + 1 / 1000 \<le> b" shows "py_round a 4 < py_round b 4"
proof -
  have "\<bar>py_round a 4 - a\<bar> \<le> 1 / 20000" "\<bar>py_round b 4 - b\<bar> \<le> 1 / 20000"
    using py_round_close [of a 4] py_round_close [of b 4] by simp_all
  then show ?thesis using assms by linarith
qed

lemma crop_of_cases: "crop_of c = asparagus \<or> crop_of c = tomato \<or> crop_of c = wheat"
  by (simp add: crop_of_def dict_get_def crop_parameters_def)

lemma soil_of_cases: "soil_of s = sandy \<or> soil_of s = loamy \<or> soil_of s = clay"
  by (simp add: soil_of_def dict_get_def soil_types_def)

lemma p_range: "2 / 5 \<le> p (crop_of c)" "p (crop_of c) \<le> 13 / 20"
  using crop_of_cases [of c] by (auto simp: asparagus_def tomato_def wheat_def)

lemma adj_range: "19 / 20 \<le> calculate_vegetation_adjustment lai c"
  "calculate_vegetation_adjustment lai c \<le> 11 / 10"
  by (auto simp: calculate_vegetation_adjustment_def)

lemma theta_margin:
  "wilting_point (soil_of s) + 31 / 1000 \<le>
     (field_capacity (soil_of s) - p (crop_of c) * (field_capacity (soil_of s) - wilting_point (soil_of s)))
       * calculate_vegetation_adjustment lai c"
proof -
  define fc where "fc = field_capacity (soil_of s)"
  define wp where "wp = wilting_point (soil_of s)"
  define pc where "pc = p (crop_of c)"
  define adj where "adj = calculate_vegetation_adjustment lai c"
  define th where "th = fc - pc * (fc - wp)"
  have taw: "0 \<le> fc - wp" and base: "wp + 31 / 1000 \<le> (fc - 13 / 20 * (fc - wp)) * (19 / 20)"
    and lo: "0 \<le> fc - 13 / 20 * (fc - wp)"
    using soil_of_cases [of s] by (auto simp: fc_def wp_def sandy_def loamy_def clay_def)
  have "pc * (fc - wp) \<le> 13 / 20 * (fc - wp)"
    using p_range(2) [of c] taw unfolding pc_def by (rule mult_right_mono)
  then have th: "fc - 13 / 20 * (fc - wp) \<le> th" by (simp add: th_def)
  then have thpos: "0 \<le> th" using lo by linarith
  have "th * (19 / 20) \<le> th * adj"
    using adj_range(1) [of lai c] thpos unfolding adj_def by (rule mult_left_mono)
  moreover have "(fc - 13 / 20 * (fc - wp)) * (19 / 20) \<le> th * (19 / 20)"
    using th by (rule mult_right_mono) simp
  ultimately have "wp + 31 / 1000 \<le> th * adj" using base by linarith
  then show ?thesis by (simp add: th_def fc_def wp_def pc_def adj_def)
qed

text \<open>
  Claim C2. For every crop key and every soil key (the three of each table, and any other
  key through its fallback) and every leaf area index, present or not, the threshold
  calculation returns trigger points with critical < high < medium < low.
\<close>

theorem trigger_points_strictly_ordered:
  "\<exists>d. calculate_stress_threshold_fao56 crop_type soil_type veg_lai = Inr d \<and>
       tp_critical (trigger_points d) < tp_high (trigger_points d) \<and>
       tp_high (trigger_points d) < tp_medium (trigger_points d) \<and>
       tp_medium (trigger_points d) < tp_low (trigger_points d)"
proof -
  define wp where "wp = wilting_point (soil_of soil_type)"
  define th where "th = (field_capacity (soil_of soil_type) - p (crop_of crop_type) *
     (field_capacity (soil_of soil_type) - wilting_point (soil_of soil_type))) *
     calculate_vegetation_adjustment (case veg_lai of None \<Rightarrow> 25 / 10 | Some l \<Rightarrow> l) crop_type"
  have taw: "field_capacity (soil_of soil_type) - wilting_point (soil_of soil_type) \<noteq> 0"
    using soil_of_cases [of soil_type] by (auto simp: sandy_def loamy_def clay_def)
  have m: "wp + 31 / 1000 \<le> th"
    unfolding wp_def th_def by (rule theta_margin)
  have 1: "py_round (wp + 2 / 100) 4 < py_round (th - 1 / 100) 4"
    by (rule py_round4_less) (use m in linarith)
  have 2: "py_round (th - 1 / 100) 4 < py_round th 4"
    by (rule py_round4_less) simp
  have 3: "py_round th 4 < py_round (th + 2 / 100) 4"
    by (rule py_round4_less) simp
  show ?thesis
    using taw 1 2 3
    by (simp add: calculate_stress_threshold_fao56_def Let_def wp_def th_def)
qed

text \<open>The asparagus on loamy soil scenario, as an instance.\<close>

theorem trigger_points_strictly_ordered_witness:
  "\<exists>d. calculate_stress_threshold_fao56 ''asparagus'' ''loamy'' (Some (25 / 10)) = Inr d \<and>
       tp_critical (trigger_points d) < tp_high (trigger_points d) \<and>
       tp_high (trigger_points d) < tp_medium (trigger_points d) \<and>
       tp_medium (trigger_points d) < tp_low (trigger_points d)"
  by (rule trigger_points_strictly_ordered)

section \<open>The simulated soil moisture stays within its bounds\<close>

lemma bind_err_Inl [simp]: "bind_err (Inl e) f = Inl e"
  by (simp add: bind_err_def)

lemma bind_err_Inr [simp]: "bind_err (Inr v) f = f v"
  by (simp add: bind_err_def)

lemma bind_err_eq_Inr: "bind_err r f = Inr y \<longleftrightarrow> (\<exists>v. r = Inr v \<and> f v = Inr y)"
  by (cases r) simp_all

lemma soil_wp_le_fc: "wilting_point (soil_of s) \<le> field_capacity (soil_of s)"
  using soil_of_cases [of s] by (auto simp: sandy_def loamy_def clay_def)

lemma soil_round_fixed:
  "py_round (wilting_point (soil_of s)) 4 = wilting_point (soil_of s)"
  "py_round (field_capacity (soil_of s)) 4 = field_capacity (soil_of s)"
  using soil_of_cases [of s]
  by (auto simp: sandy_def loamy_def clay_def py_round_def round_half_even_def)

lemma rooting_depth_pos: "0 < rooting_depth (crop_of c)"
  using crop_of_cases [of c] by (auto simp: asparagus_def tomato_def wheat_def)

lemma crop_coefficient_pos: "0 < get_crop_coefficient c lai"
  using crop_of_cases [of c]
  by (auto simp: get_crop_coefficient_def Let_def asparagus_def tomato_def wheat_def)

lemma penman_nonneg:
  "calculate_reference_et_penman_monteith t h r = Inr e \<Longrightarrow> 0 \<le> e"
  by (auto simp: calculate_reference_et_penman_monteith_def Let_def split: if_splits)

lemma hourly_et0_nonneg: "calculate_hourly_et0 t h w r = Inr e \<Longrightarrow> 0 \<le> e"
  by (auto simp: calculate_hourly_et0_def dest: penman_nonneg split: sum.splits)

lemma weather_for_hour_in_set: "weather_for_hour wfc hour = Inr w \<Longrightarrow> w \<in> set wfc"
  by (auto simp: weather_for_hour_def Let_def split: if_splits)

lemma water_balance_step_simps:
  "hb_crop_et (water_balance_step perc clk ic w veg c s hour cur e0) =
     e0 * get_crop_coefficient c (vp_lai veg)"
  "hb_deep_percolation (water_balance_step perc clk ic w veg c s hour cur e0) =
     perc cur (field_capacity (soil_of s)) (hydraulic_conductivity (soil_of s))"
  "hb_new_moisture (water_balance_step perc clk ic w veg c s hour cur e0) =
     new_moisture_of cur (rainfall w) (e0 * get_crop_coefficient c (vp_lai veg))
       (perc cur (field_capacity (soil_of s)) (hydraulic_conductivity (soil_of s))) c s"
  "soil_moisture (hb_emitted (water_balance_step perc clk ic w veg c s hour cur e0)) =
     py_round (hb_new_moisture (water_balance_step perc clk ic w veg c s hour cur e0)) 4"
  "deficit (hb_emitted (water_balance_step perc clk ic w veg c s hour cur e0)) =
     py_round (max 0 (field_capacity (soil_of s)
        - hb_new_moisture (water_balance_step perc clk ic w veg c s hour cur e0))) 4"
  "smd_field_capacity (hb_emitted (water_balance_step perc clk ic w veg c s hour cur e0)) =
     field_capacity (soil_of s)"
  "smd_wilting_point (hb_emitted (water_balance_step perc clk ic w veg c s hour cur e0)) =
     wilting_point (soil_of s)"
  by (simp_all add: water_balance_step_def Let_def new_moisture_of_def)

lemma hydro_hour_Inr:
  assumes "hydro_hour_with perc clk ic wfc veg c s hour cur = Inr b"
  shows "\<exists>w e0. weather_for_hour wfc hour = Inr w \<and> hourly_et0_of w hour = Inr e0 \<and>
           b = water_balance_step perc clk ic w veg c s hour cur e0"
  using assms by (auto simp: hydro_hour_with_def bind_err_eq_Inr)

lemma hourly_et0_of_nonneg: "hourly_et0_of w hour = Inr e0 \<Longrightarrow> 0 \<le> e0"
  unfolding hourly_et0_of_def Let_def by (rule hourly_et0_nonneg)


lemma new_moisture_bounds:
  "wilting_point (soil_of s) \<le> new_moisture_of cur rain et dp c s"
  "new_moisture_of cur rain et dp c s \<le> field_capacity (soil_of s)"
  using soil_wp_le_fc [of s] by (simp_all add: new_moisture_of_def)

lemma py_round4_bounds:
  assumes "wilting_point (soil_of s) \<le> x" and "x \<le> field_capacity (soil_of s)"
  shows "wilting_point (soil_of s) \<le> py_round x 4 \<and> py_round x 4 \<le> field_capacity (soil_of s)"
  using py_round_mono [OF assms(1), of 4] py_round_mono [OF assms(2), of 4]
  by (simp add: soil_round_fixed)

lemma hydro_loop_length:
  "hydro_loop_with perc clk ic wfc veg c s hrs cur = Inr bs \<Longrightarrow> length bs = length hrs"
proof (induction hrs arbitrary: cur bs)
  case Nil
  then show ?case by simp
next
  case (Cons h hrs)
  then show ?case by (auto simp: bind_err_eq_Inr)
qed

lemma hydro_loop_bounds:
  "hydro_loop_with perc clk ic wfc veg c s hrs cur = Inr bs \<Longrightarrow> b \<in> set bs \<Longrightarrow>
     wilting_point (soil_of s) \<le> hb_new_moisture b \<and>
     hb_new_moisture b \<le> field_capacity (soil_of s) \<and>
     soil_moisture (hb_emitted b) = py_round (hb_new_moisture b) 4 \<and>
     smd_field_capacity (hb_emitted b) = field_capacity (soil_of s) \<and>
     smd_wilting_point (hb_emitted b) = wilting_point (soil_of s)"
proof (induction hrs arbitrary: cur bs)
  case Nil
  then show ?case by simp
next
  case (Cons h hrs)
  from Cons.prems(1) obtain b0 bs' where
    b0: "hydro_hour_with perc clk ic wfc veg c s h cur = Inr b0" and
    rest: "hydro_loop_with perc clk ic wfc veg c s hrs (hb_new_moisture b0) = Inr bs'" and
    bs: "bs = b0 # bs'"
    by (auto simp: bind_err_eq_Inr)
  show ?case
  proof (cases "b = b0")
    case True
    from hydro_hour_Inr [OF b0] obtain w e0 where
      "b0 = water_balance_step perc clk ic w veg c s h cur e0" by blast
    then show ?thesis using True
      by (simp add: water_balance_step_simps new_moisture_bounds)
  next
    case False
    then have "b \<in> set bs'" using Cons.prems(2) bs by simp
    then show ?thesis using Cons.IH [OF rest] by simp
  qed
qed


lemma penman_returns:
  assumes "- (2373 / 10) < t"
  shows "\<exists>e. calculate_reference_et_penman_monteith t h r = Inr e"
proof -
  define delta where "delta = 4098 * (6108 / 10000 * exp (1727 / 100 * t / (t + 2373 / 10)))
                      / (t + 2373 / 10) ^ 2"
  have "0 \<le> delta" unfolding delta_def by simp
  then have d: "delta + 665 / 1000 * (1 + 34 / 100 * 2) \<noteq> 0" by simp
  have t1: "t + 2373 / 10 \<noteq> 0" and t2: "t + 273 \<noteq> 0" using assms by simp_all
  show ?thesis
    using d t1 t2 unfolding calculate_reference_et_penman_monteith_def Let_def delta_def
    by simp
qed

lemma hourly_et0_of_returns:
  assumes "- 232 < temperature w"
  shows "\<exists>e0. hourly_et0_of w hour = Inr e0"
proof -
  have "- 1 \<le> sin (2 * pi * real (hour mod 24) / 24)" by simp
  then have "- (2373 / 10) < temperature w + 5 * sin (2 * pi * real (hour mod 24) / 24)"
    using assms by linarith
  from penman_returns [OF this] obtain e where
    "calculate_reference_et_penman_monteith
       (temperature w + 5 * sin (2 * pi * real (hour mod 24) / 24)) (humidity w)
       (solar_radiation w * max 0 (sin (pi * real (hour mod 24) / 12))) = Inr e" by blast
  then have "hourly_et0_of w hour = Inr (e / 24)"
    unfolding hourly_et0_of_def calculate_hourly_et0_def Let_def by simp
  then show ?thesis by blast
qed

lemma weather_for_hour_returns:
  "wfc \<noteq> [] \<Longrightarrow> \<exists>w. weather_for_hour wfc hour = Inr w"
  by (simp add: weather_for_hour_def Let_def)

lemma hydro_hour_returns:
  assumes "wfc \<noteq> []" and "\<forall>w\<in>set wfc. - 232 < temperature w"
  shows "\<exists>b. hydro_hour_with perc clk ic wfc veg c s hour cur = Inr b"
proof -
  obtain w where w: "weather_for_hour wfc hour = Inr w"
    using weather_for_hour_returns [OF assms(1)] by blast
  then have "- 232 < temperature w" using assms(2) weather_for_hour_in_set by blast
  then obtain e0 where "hourly_et0_of w hour = Inr e0"
    using hourly_et0_of_returns by blast
  then show ?thesis using w by (simp add: hydro_hour_with_def)
qed

lemma hydro_loop_returns:
  assumes "wfc \<noteq> []" and "\<forall>w\<in>set wfc. - 232 < temperature w"
  shows "\<exists>bs. hydro_loop_with perc clk ic wfc veg c s hrs cur = Inr bs"
proof (induction hrs arbitrary: cur)
  case Nil
  then show ?case by simp
next
  case (Cons h hrs)
  obtain b where b: "hydro_hour_with perc clk ic wfc veg c s h cur = Inr b"
    using hydro_hour_returns [OF assms] by blast
  obtain bs where "hydro_loop_with perc clk ic wfc veg c s hrs (hb_new_moisture b) = Inr bs"
    using Cons.IH by blast
  then show ?case using b by simp
qed

lemma simulation_returns:
  assumes "wfc \<noteq> []" and "\<forall>w\<in>set wfc. - 232 < temperature w"
  shows "\<exists>states. run_hydrological_model_fest_ewb clk ic wfc veg c s = Inr states"
  using hydro_loop_returns [OF assms]
  by (simp add: run_hydrological_model_fest_ewb_def water_balance_trace_def bind_err_eq_Inr)

lemma default_forecast_temperatures:
  "get_default_weather_forecast clk \<noteq> []"
  "\<forall>w\<in>set (get_default_weather_forecast clk). - 232 < temperature w"
  by (simp_all add: get_default_weather_forecast_def Let_def)

text \<open>
  Claim C1. Whenever the simulator returns, it returns 72 points, and every one of them
  has its soil moisture between its wilting point and its field capacity, which are those
  of the soil. It returns for every non-empty forecast whose temperatures are above
  -232 degrees; an error leaves no point at all.
\<close>

theorem soil_moisture_within_bounds:
  "(wfc \<noteq> [] \<and> (\<forall>w\<in>set wfc. - 232 < temperature w) \<longrightarrow>
      (\<exists>states. run_hydrological_model_fest_ewb clk ic wfc veg crop_type soil_type = Inr states))
   \<and> (\<forall>states. run_hydrological_model_fest_ewb clk ic wfc veg crop_type soil_type = Inr states \<longrightarrow>
        length states = 72 \<and>
        (\<forall>st\<in>set states.
           smd_wilting_point st \<le> soil_moisture st \<and> soil_moisture st \<le> smd_field_capacity st \<and>
           smd_wilting_point st = wilting_point (soil_of soil_type) \<and>
           smd_field_capacity st = field_capacity (soil_of soil_type)))"
proof (intro conjI impI allI)
  assume "wfc \<noteq> [] \<and> (\<forall>w\<in>set wfc. - 232 < temperature w)"
  then show "\<exists>states. run_hydrological_model_fest_ewb clk ic wfc veg crop_type soil_type = Inr states"
    using simulation_returns by blast
next
  fix states
  assume run: "run_hydrological_model_fest_ewb clk ic wfc veg crop_type soil_type = Inr states"
  then obtain bs where
    bs: "hydro_loop_with calculate_deep_percolation clk ic wfc veg crop_type soil_type
           [0 ..< forecast_horizon] (soil_water_content ic) = Inr bs" and
    st: "states = map hb_emitted bs"
    by (auto simp: run_hydrological_model_fest_ewb_def water_balance_trace_def bind_err_eq_Inr)
  show "length states = 72"
    using hydro_loop_length [OF bs] st by (simp add: forecast_horizon_def)
  show "\<forall>st\<in>set states.
           smd_wilting_point st \<le> soil_moisture st \<and> soil_moisture st \<le> smd_field_capacity st \<and>
           smd_wilting_point st = wilting_point (soil_of soil_type) \<and>
           smd_field_capacity st = field_capacity (soil_of soil_type)"
  proof
    fix x assume "x \<in> set states"
    then obtain b where b: "b \<in> set bs" and x: "x = hb_emitted b" using st by auto
    from hydro_loop_bounds [OF bs b] py_round4_bounds [of soil_type "hb_new_moisture b"]
    show "smd_wilting_point x \<le> soil_moisture x \<and> soil_moisture x \<le> smd_field_capacity x \<and>
           smd_wilting_point x = wilting_point (soil_of soil_type) \<and>
           smd_field_capacity x = field_capacity (soil_of soil_type)"
      using x by simp
  qed
qed

text \<open>The default forecast on clay, as an instance.\<close>

theorem soil_moisture_within_bounds_witness:
  "\<exists>states. run_hydrological_model_fest_ewb (\<lambda>k. 0)
       (get_default_initial_conditions ''wheat'' ''clay'') (get_default_weather_forecast (\<lambda>k. 0))
       some_veg ''wheat'' ''clay'' = Inr states \<and> length states = 72 \<and>
     (\<forall>st\<in>set states. 20 / 100 \<le> soil_moisture st \<and> soil_moisture st \<le> 45 / 100)"
proof -
  let ?run = "run_hydrological_model_fest_ewb (\<lambda>k. 0)
       (get_default_initial_conditions ''wheat'' ''clay'') (get_default_weather_forecast (\<lambda>k. 0))
       some_veg ''wheat'' ''clay''"
  note inst = soil_moisture_within_bounds [of "get_default_weather_forecast (\<lambda>k. 0)" "\<lambda>k. 0"
      "get_default_initial_conditions ''wheat'' ''clay''" some_veg "''wheat''" "''clay''"]
  have pre: "get_default_weather_forecast (\<lambda>k. 0) \<noteq> [] \<and>
      (\<forall>w\<in>set (get_default_weather_forecast (\<lambda>k. 0)). - 232 < temperature w)"
    by (simp add: get_default_weather_forecast_def Let_def)
  from inst pre obtain states where r: "?run = Inr states" by blast
  have clay: "soil_of ''clay'' = clay" by (simp add: soil_of_def dict_get_def soil_types_def)
  from inst r have "length states = 72 \<and>
     (\<forall>st\<in>set states. smd_wilting_point st \<le> soil_moisture st \<and>
        soil_moisture st \<le> smd_field_capacity st \<and>
        smd_wilting_point st = wilting_point (soil_of ''clay'') \<and>
        smd_field_capacity st = field_capacity (soil_of ''clay''))" by blast
  then have "length states = 72 \<and>
     (\<forall>st\<in>set states. 20 / 100 \<le> soil_moisture st \<and> soil_moisture st \<le> 45 / 100)"
    by (auto simp: clay clay_def)
  then show ?thesis using r by blast
qed

section \<open>Hours without rain\<close>

lemma infiltration_rate_pos: "0 < infiltration_rate (soil_of s)"
  using soil_of_cases [of s] by (auto simp: sandy_def loamy_def clay_def)

lemma hydraulic_conductivity_pos: "0 < hydraulic_conductivity (soil_of s)"
  using soil_of_cases [of s] by (auto simp: sandy_def loamy_def clay_def)

lemma deep_percolation_zero: "cur \<le> fc \<Longrightarrow> calculate_deep_percolation cur fc k = 0"
  by (simp add: calculate_deep_percolation_def)

lemma new_moisture_dry:
  assumes "wilting_point (soil_of s) \<le> cur" and "0 \<le> et" and "0 \<le> dp"
  shows "new_moisture_of cur 0 et dp c s \<le> cur"
proof -
  have "(min (0 / 24) (infiltration_rate (soil_of s)) - et - dp)
          / (rooting_depth (crop_of c) * 1000) \<le> 0"
    using assms(2,3) infiltration_rate_pos [of s] rooting_depth_pos [of c]
    by (simp add: divide_nonpos_pos)
  then show ?thesis using assms(1) unfolding new_moisture_of_def by (simp add: min_le_iff_disj)
qed

lemma new_moisture_at_wilting_point:
  assumes "0 \<le> et"
  shows "new_moisture_of (wilting_point (soil_of s)) 0 et 0 c s = wilting_point (soil_of s)"
proof -
  have "wilting_point (soil_of s) \<le> new_moisture_of (wilting_point (soil_of s)) 0 et 0 c s"
    by (rule new_moisture_bounds)
  moreover have "new_moisture_of (wilting_point (soil_of s)) 0 et 0 c s \<le> wilting_point (soil_of s)"
    by (rule new_moisture_dry) (use assms in simp_all)
  ultimately show ?thesis by simp
qed

text \<open>One dry hour from a moisture within the bounds.\<close>

lemma dry_hour:
  assumes rain: "\<forall>w\<in>set wfc. rainfall w = 0"
    and hour: "hydro_hour_with calculate_deep_percolation clk ic wfc veg c s h cur = Inr b"
    and lo: "wilting_point (soil_of s) \<le> cur" and hi: "cur \<le> field_capacity (soil_of s)"
  shows "hb_new_moisture b \<le> cur"
    and "cur = wilting_point (soil_of s) \<Longrightarrow> hb_new_moisture b = wilting_point (soil_of s)"
proof -
  from hydro_hour_Inr [OF hour] obtain w e0 where
    w: "weather_for_hour wfc h = Inr w" and e0: "hourly_et0_of w h = Inr e0" and
    b: "b = water_balance_step calculate_deep_percolation clk ic w veg c s h cur e0" by blast
  have r: "rainfall w = 0" using rain weather_for_hour_in_set [OF w] by blast
  have et: "0 \<le> e0 * get_crop_coefficient c (vp_lai veg)"
    using hourly_et0_of_nonneg [OF e0] crop_coefficient_pos [of c "vp_lai veg"] by simp
  have new: "hb_new_moisture b =
      new_moisture_of cur 0 (e0 * get_crop_coefficient c (vp_lai veg)) 0 c s"
    using b r hi by (simp add: water_balance_step_simps deep_percolation_zero)
  show "hb_new_moisture b \<le> cur"
    unfolding new by (rule new_moisture_dry) (use lo et in simp_all)
  show "hb_new_moisture b = wilting_point (soil_of s)" if "cur = wilting_point (soil_of s)"
    unfolding new that by (rule new_moisture_at_wilting_point) (rule et)
qed

lemma hydro_loop_Cons:
  assumes "hydro_loop_with perc clk ic wfc veg c s (h # hrs) cur = Inr bs"
  obtains b0 bs' where "hydro_hour_with perc clk ic wfc veg c s h cur = Inr b0"
    and "hydro_loop_with perc clk ic wfc veg c s hrs (hb_new_moisture b0) = Inr bs'"
    and "bs = b0 # bs'"
  using assms by (auto simp: bind_err_eq_Inr)

lemma hydro_hour_in_bounds:
  assumes "hydro_hour_with perc clk ic wfc veg c s h cur = Inr b"
  shows "wilting_point (soil_of s) \<le> hb_new_moisture b"
    and "hb_new_moisture b \<le> field_capacity (soil_of s)"
proof -
  from hydro_hour_Inr [OF assms] obtain w e0 where
    "b = water_balance_step perc clk ic w veg c s h cur e0" by blast
  then show "wilting_point (soil_of s) \<le> hb_new_moisture b"
    and "hb_new_moisture b \<le> field_capacity (soil_of s)"
    by (simp_all add: water_balance_step_simps new_moisture_bounds)
qed

lemma dry_loop_below_start:
  assumes rain: "\<forall>w\<in>set wfc. rainfall w = 0"
  shows "hydro_loop_with calculate_deep_percolation clk ic wfc veg c s hrs cur = Inr bs \<Longrightarrow>
     wilting_point (soil_of s) \<le> cur \<Longrightarrow> cur \<le> field_capacity (soil_of s) \<Longrightarrow>
     b \<in> set bs \<Longrightarrow> hb_new_moisture b \<le> cur"
proof (induction hrs arbitrary: cur bs)
  case Nil
  then show ?case by simp
next
  case (Cons h hrs)
  from Cons.prems(1) obtain b0 bs' where
    b0: "hydro_hour_with calculate_deep_percolation clk ic wfc veg c s h cur = Inr b0" and
    rest: "hydro_loop_with calculate_deep_percolation clk ic wfc veg c s hrs
             (hb_new_moisture b0) = Inr bs'" and
    bs: "bs = b0 # bs'" by (rule hydro_loop_Cons)
  have le: "hb_new_moisture b0 \<le> cur"
    using dry_hour(1) [OF rain b0 Cons.prems(2,3)] .
  show ?case
  proof (cases "b = b0")
    case True
    then show ?thesis using le by simp
  next
    case False
    then have "b \<in> set bs'" using Cons.prems(4) bs by simp
    then have "hb_new_moisture b \<le> hb_new_moisture b0"
      using Cons.IH [OF rest hydro_hour_in_bounds [OF b0]] by simp
    then show ?thesis using le by simp
  qed
qed

lemma dry_loop_sorted:
  assumes rain: "\<forall>w\<in>set wfc. rainfall w = 0"
  shows "hydro_loop_with calculate_deep_percolation clk ic wfc veg c s hrs cur = Inr bs \<Longrightarrow>
     sorted_wrt (\<lambda>a b. b \<le> a) (map hb_new_moisture bs)"
proof (induction hrs arbitrary: cur bs)
  case Nil
  then show ?case by simp
next
  case (Cons h hrs)
  from Cons.prems(1) obtain b0 bs' where
    b0: "hydro_hour_with calculate_deep_percolation clk ic wfc veg c s h cur = Inr b0" and
    rest: "hydro_loop_with calculate_deep_percolation clk ic wfc veg c s hrs
             (hb_new_moisture b0) = Inr bs'" and
    bs: "bs = b0 # bs'" by (rule hydro_loop_Cons)
  have "\<forall>b\<in>set bs'. hb_new_moisture b \<le> hb_new_moisture b0"
    using dry_loop_below_start [OF rain rest hydro_hour_in_bounds [OF b0]] by blast
  then show ?case using Cons.IH [OF rest] bs by simp
qed

lemma dry_loop_at_wilting_point:
  assumes rain: "\<forall>w\<in>set wfc. rainfall w = 0"
  shows "hydro_loop_with calculate_deep_percolation clk ic wfc veg c s hrs cur = Inr bs \<Longrightarrow>
     cur = wilting_point (soil_of s) \<Longrightarrow> b \<in> set bs \<Longrightarrow>
     hb_new_moisture b = wilting_point (soil_of s)"
proof (induction hrs arbitrary: cur bs)
  case Nil
  then show ?case by simp
next
  case (Cons h hrs)
  from Cons.prems(1) obtain b0 bs' where
    b0: "hydro_hour_with calculate_deep_percolation clk ic wfc veg c s h cur = Inr b0" and
    rest: "hydro_loop_with calculate_deep_percolation clk ic wfc veg c s hrs
             (hb_new_moisture b0) = Inr bs'" and
    bs: "bs = b0 # bs'" by (rule hydro_loop_Cons)
  have eq: "hb_new_moisture b0 = wilting_point (soil_of s)"
    using dry_hour(2) [OF rain b0 _ _ Cons.prems(2)] Cons.prems(2) soil_wp_le_fc [of s] by simp
  show ?case
  proof (cases "b = b0")
    case True
    then show ?thesis using eq by simp
  next
    case False
    then have "b \<in> set bs'" using Cons.prems(3) bs by simp
    then show ?thesis using Cons.IH [OF rest eq] by simp
  qed
qed

lemma run_Inr:
  assumes "run_hydrological_model_fest_ewb clk ic wfc veg c s = Inr states"
  obtains bs where
    "hydro_loop_with calculate_deep_percolation clk ic wfc veg c s [0 ..< forecast_horizon]
       (soil_water_content ic) = Inr bs"
    and "states = map hb_emitted bs" and "length bs = 72"
    and "map soil_moisture states = map (\<lambda>b. py_round (hb_new_moisture b) 4) bs"
proof -
  from assms obtain bs where
    bs: "hydro_loop_with calculate_deep_percolation clk ic wfc veg c s [0 ..< forecast_horizon]
       (soil_water_content ic) = Inr bs" and st: "states = map hb_emitted bs"
    by (auto simp: run_hydrological_model_fest_ewb_def water_balance_trace_def bind_err_eq_Inr)
  have len: "length bs = 72" using hydro_loop_length [OF bs] by (simp add: forecast_horizon_def)
  have "map soil_moisture states = map (\<lambda>b. py_round (hb_new_moisture b) 4) bs"
    using hydro_loop_bounds [OF bs] st by simp
  with bs st len show ?thesis using that by blast
qed

text \<open>
  Claim C10. When every day of the forecast has no rain, the 72 soil moistures of a run
  never rise from one hour to a later one. The run returns for every non-empty forecast
  whose temperatures are above -232 degrees.
\<close>

theorem rain_free_moisture_non_increasing:
  assumes "\<forall>w\<in>set wfc. rainfall w = 0"
  shows "(wfc \<noteq> [] \<and> (\<forall>w\<in>set wfc. - 232 < temperature w) \<longrightarrow>
      (\<exists>states. run_hydrological_model_fest_ewb clk ic wfc veg crop_type soil_type = Inr states))
   \<and> (\<forall>states. run_hydrological_model_fest_ewb clk ic wfc veg crop_type soil_type = Inr states \<longrightarrow>
        length states = 72 \<and>
        (\<forall>i j. i \<le> j \<and> j < 72 \<longrightarrow>
           soil_moisture (states ! j) \<le> soil_moisture (states ! i)))"
proof (intro conjI impI allI)
  assume "wfc \<noteq> [] \<and> (\<forall>w\<in>set wfc. - 232 < temperature w)"
  then show "\<exists>states. run_hydrological_model_fest_ewb clk ic wfc veg crop_type soil_type = Inr states"
    using simulation_returns by blast
next
  fix states
  assume run: "run_hydrological_model_fest_ewb clk ic wfc veg crop_type soil_type = Inr states"
  from run obtain bs where
    bs: "hydro_loop_with calculate_deep_percolation clk ic wfc veg crop_type soil_type
           [0 ..< forecast_horizon] (soil_water_content ic) = Inr bs" and
    st: "states = map hb_emitted bs" and len: "length bs = 72" and
    sm: "map soil_moisture states = map (\<lambda>b. py_round (hb_new_moisture b) 4) bs"
    by (rule run_Inr)
  show len': "length states = 72" using st len by simp
  have "sorted_wrt (\<lambda>a b. b \<le> a) (map hb_new_moisture bs)"
    using dry_loop_sorted [OF assms bs] .
  then have "sorted_wrt (\<lambda>a b. py_round b 4 \<le> py_round a 4) (map hb_new_moisture bs)"
    by (rule sorted_wrt_mono_rel [rotated]) (simp add: py_round_mono)
  then have sorted: "sorted_wrt (\<lambda>a b. b \<le> a) (map soil_moisture states)"
    unfolding sm by (simp add: sorted_wrt_map)
  fix i j :: nat assume ij: "i \<le> j \<and> j < 72"
  show "soil_moisture (states ! j) \<le> soil_moisture (states ! i)"
  proof (cases "i = j")
    case True
    then show ?thesis by simp
  next
    case False
    then have "i < j" "j < length (map soil_moisture states)" using ij len' by simp_all
    from sorted_wrt_nth_less [OF sorted this] show ?thesis using ij len' by simp
  qed
qed

text \<open>Three hot days without rain on sandy soil, as an instance.\<close>

theorem rain_free_moisture_non_increasing_witness:
  "\<exists>states. run_hydrological_model_fest_ewb (\<lambda>k. 0)
       (get_default_initial_conditions ''tomato'' ''sandy'') dry_forecast some_veg
       ''tomato'' ''sandy'' = Inr states \<and> length states = 72 \<and>
     soil_moisture (states ! 71) \<le> soil_moisture (states ! 0)"
proof -
  have dry: "\<forall>w\<in>set dry_forecast. rainfall w = 0" by (simp add: dry_forecast_def)
  have ok: "dry_forecast \<noteq> [] \<and> (\<forall>w\<in>set dry_forecast. - 232 < temperature w)"
    by (simp add: dry_forecast_def)
  note inst = rain_free_moisture_non_increasing [OF dry, of "\<lambda>k. 0"
      "get_default_initial_conditions ''tomato'' ''sandy''" some_veg "''tomato''" "''sandy''"]
  from inst ok obtain states where r: "run_hydrological_model_fest_ewb (\<lambda>k. 0)
       (get_default_initial_conditions ''tomato'' ''sandy'') dry_forecast some_veg
       ''tomato'' ''sandy'' = Inr states" by blast
  with inst have "length states = 72 \<and>
        (\<forall>i j. i \<le> j \<and> j < 72 \<longrightarrow> soil_moisture (states ! j) \<le> soil_moisture (states ! i))"
    by blast
  then have "length states = 72 \<and> soil_moisture (states ! 71) \<le> soil_moisture (states ! 0)"
    by simp
  with r show ?thesis by blast
qed


section \<open>Starting at the wilting point\<close>

lemma stress_step_critical:
  assumes "soil_moisture f < tp_critical tp"
  shows "map stress_level (acc_events (stress_step tp acc (i, f))) =
           map stress_level (acc_events acc) @ [''critical'']"
    and "map se_hour (acc_events (stress_step tp acc (i, f))) = map se_hour (acc_events acc) @ [i]"
    and "acc_critical_periods (stress_step tp acc (i, f)) = acc_critical_periods acc @ [i]"
  using assms by (simp_all add: stress_step_def classify_stress_level_def Let_def)

lemma stress_fold_critical:
  assumes "\<forall>f\<in>set fs. soil_moisture f < tp_critical tp"
  shows "map stress_level (acc_events (foldl (stress_step tp) acc (enumerate k fs))) =
           map stress_level (acc_events acc) @ replicate (length fs) ''critical'' \<and>
         map se_hour (acc_events (foldl (stress_step tp) acc (enumerate k fs))) =
           map se_hour (acc_events acc) @ [k ..< k + length fs] \<and>
         acc_critical_periods (foldl (stress_step tp) acc (enumerate k fs)) =
           acc_critical_periods acc @ [k ..< k + length fs]"
  using assms
proof (induction fs arbitrary: acc k)
  case Nil
  then show ?case by simp
next
  case (Cons f fs)
  have f: "soil_moisture f < tp_critical tp" and rest: "\<forall>f\<in>set fs. soil_moisture f < tp_critical tp"
    using Cons.prems by simp_all
  have u: "[k ..< k + length (f # fs)] = k # [Suc k ..< Suc k + length fs]"
    by (subst upt_rec) simp
  show ?case
    unfolding u using Cons.IH [OF rest, of "stress_step tp acc (k, f)" "Suc k"]
    by (simp add: stress_step_critical [OF f] del: upt_Suc)
qed

lemma critical_trigger_point:
  assumes "calculate_stress_threshold_fao56 c s l = Inr td"
  shows "tp_critical (trigger_points td) = wilting_point (soil_of s) + 2 / 100"
proof -
  have "py_round (wilting_point (soil_of s) + 2 / 100) 4 = wilting_point (soil_of s) + 2 / 100"
    using soil_of_cases [of s]
    by (auto simp: sandy_def loamy_def clay_def py_round_def round_half_even_def)
  then show ?thesis
    using assms by (auto simp: calculate_stress_threshold_fao56_def Let_def split: if_splits)
qed

lemma stress_threshold_returns:
  "\<exists>td. calculate_stress_threshold_fao56 c s l = Inr td"
proof -
  have "field_capacity (soil_of s) - wilting_point (soil_of s) \<noteq> 0"
    using soil_of_cases [of s] by (auto simp: sandy_def loamy_def clay_def)
  then show ?thesis by (simp add: calculate_stress_threshold_fao56_def Let_def)
qed

lemma analyze_all_critical:
  assumes "\<forall>f\<in>set fs. soil_moisture f < tp_critical (trigger_points td)" and "12 < length fs"
  shows "\<exists>stress. analyze_stress_conditions_pregi fs td = Inr stress \<and>
           map stress_level (stress_events stress) = replicate (length fs) ''critical'' \<and>
           map se_hour (stress_events stress) = [0 ..< length fs] \<and>
           critical_periods stress = [0 ..< length fs] \<and>
           irrigation_urgency stress = ''critical''"
proof -
  define acc where "acc = foldl (stress_step (trigger_points td))
                  \<lparr>acc_events = [], acc_stress_hours = 0, acc_min_moisture = None,
                   acc_max_deficit = 0, acc_critical_periods = []\<rparr>
                  (zip [0 ..< length fs] fs)"
  have facts: "map stress_level (acc_events acc) = replicate (length fs) ''critical''"
    "map se_hour (acc_events acc) = [0 ..< length fs]"
    "acc_critical_periods acc = [0 ..< length fs]"
    using stress_fold_critical [OF assms(1), of _ 0]
    by (simp_all add: acc_def enumerate_eq_zip)
  have urg: "determine_irrigation_urgency (acc_events acc) (acc_critical_periods acc) = ''critical''"
    using assms(2) by (simp add: determine_irrigation_urgency_def facts)
  have "analyze_stress_conditions_pregi fs td =
     Inr \<lparr>stress_events = acc_events acc,
          stress_hours = acc_stress_hours acc,
          stress_percentage = py_round (acc_stress_hours acc / real (length fs) * 100) 1,
          min_forecasted_moisture = py_round (opt_get (acc_min_moisture acc) 0) 4,
          max_deficit = py_round (acc_max_deficit acc) 4,
          critical_periods = acc_critical_periods acc,
          irrigation_triggered = (0 < length (acc_events acc)),
          irrigation_urgency =
            determine_irrigation_urgency (acc_events acc) (acc_critical_periods acc),
          stress_severity = classify_overall_stress_severity (acc_events acc)\<rparr>"
    using assms(2) unfolding analyze_stress_conditions_pregi_def acc_def [symmetric] Let_def
    by auto
  then show ?thesis using facts urg by simp
qed

text \<open>
  Claim C8. Starting at the wilting point with no rain in the forecast, every one of the
  72 points of a run is at the wilting point, the stress analysis with the thresholds of
  the same crop and soil classifies each of the 72 hours as critical, and the urgency is
  critical. No assumption on the evapotranspiration is needed: it is never negative.
\<close>

theorem wilting_point_start_stays_critical:
  assumes "soil_water_content ic = wilting_point (soil_of soil_type)"
    and "\<forall>w\<in>set wfc. rainfall w = 0"
  shows "(wfc \<noteq> [] \<and> (\<forall>w\<in>set wfc. - 232 < temperature w) \<longrightarrow>
      (\<exists>states. run_hydrological_model_fest_ewb clk ic wfc veg crop_type soil_type = Inr states))
   \<and> (\<forall>states. run_hydrological_model_fest_ewb clk ic wfc veg crop_type soil_type = Inr states \<longrightarrow>
        length states = 72 \<and>
        (\<forall>st\<in>set states. soil_moisture st = wilting_point (soil_of soil_type)) \<and>
        (\<exists>td stress.
           calculate_stress_threshold_fao56 crop_type soil_type (Some (vp_lai veg)) = Inr td \<and>
           analyze_stress_conditions_pregi states td = Inr stress \<and>
           map stress_level (stress_events stress) = replicate 72 ''critical'' \<and>
           map se_hour (stress_events stress) = [0 ..< 72] \<and>
           critical_periods stress = [0 ..< 72] \<and>
           irrigation_urgency stress = ''critical''))"
proof (intro conjI impI allI)
  assume "wfc \<noteq> [] \<and> (\<forall>w\<in>set wfc. - 232 < temperature w)"
  then show "\<exists>states. run_hydrological_model_fest_ewb clk ic wfc veg crop_type soil_type = Inr states"
    using simulation_returns by blast
next
  fix states
  assume run: "run_hydrological_model_fest_ewb clk ic wfc veg crop_type soil_type = Inr states"
  from run obtain bs where
    bs: "hydro_loop_with calculate_deep_percolation clk ic wfc veg crop_type soil_type
           [0 ..< forecast_horizon] (soil_water_content ic) = Inr bs" and
    st: "states = map hb_emitted bs" and len: "length bs = 72" and
    sm: "map soil_moisture states = map (\<lambda>b. py_round (hb_new_moisture b) 4) bs"
    by (rule run_Inr)
  show len': "length states = 72" using st len by simp
  show at_wp: "\<forall>st\<in>set states. soil_moisture st = wilting_point (soil_of soil_type)"
  proof
    fix x assume "x \<in> set states"
    then obtain b where b: "b \<in> set bs" and x: "x = hb_emitted b" using st by auto
    have "hb_new_moisture b = wilting_point (soil_of soil_type)"
      using dry_loop_at_wilting_point [OF assms(2) bs assms(1) b] .
    then show "soil_moisture x = wilting_point (soil_of soil_type)"
      using hydro_loop_bounds [OF bs b] x by (simp add: soil_round_fixed)
  qed
  obtain td where td: "calculate_stress_threshold_fao56 crop_type soil_type (Some (vp_lai veg)) = Inr td"
    using stress_threshold_returns by blast
  have "\<forall>f\<in>set states. soil_moisture f < tp_critical (trigger_points td)"
    using at_wp critical_trigger_point [OF td] by simp
  from analyze_all_critical [OF this] len' td
  show "\<exists>td stress.
           calculate_stress_threshold_fao56 crop_type soil_type (Some (vp_lai veg)) = Inr td \<and>
           analyze_stress_conditions_pregi states td = Inr stress \<and>
           map stress_level (stress_events stress) = replicate 72 ''critical'' \<and>
           map se_hour (stress_events stress) = [0 ..< 72] \<and>
           critical_periods stress = [0 ..< 72] \<and>
           irrigation_urgency stress = ''critical''"
    by auto
qed

text \<open>Asparagus on loamy soil at its wilting point 0.15, as an instance.\<close>

theorem wilting_point_start_stays_critical_witness:
  "\<exists>states td stress.
     run_hydrological_model_fest_ewb (\<lambda>k. 0) parched_conditions dry_forecast some_veg
       ''asparagus'' ''loamy'' = Inr states \<and>
     length states = 72 \<and>
     soil_moisture (states ! 0) = 15 / 100 \<and> soil_moisture (states ! 71) = 15 / 100 \<and>
     calculate_stress_threshold_fao56 ''asparagus'' ''loamy'' (Some (vp_lai some_veg)) = Inr td \<and>
     analyze_stress_conditions_pregi states td = Inr stress \<and>
     irrigation_urgency stress = ''critical''"
proof -
  have loamy: "soil_of ''loamy'' = loamy" by (simp add: soil_of_def dict_get_def soil_types_def)
  have start: "soil_water_content parched_conditions = wilting_point (soil_of ''loamy'')"
    by (simp add: parched_conditions_def get_default_initial_conditions_def Let_def loamy loamy_def)
  have dry: "\<forall>w\<in>set dry_forecast. rainfall w = 0" by (simp add: dry_forecast_def)
  have ok: "dry_forecast \<noteq> [] \<and> (\<forall>w\<in>set dry_forecast. - 232 < temperature w)"
    by (simp add: dry_forecast_def)
  note inst = wilting_point_start_stays_critical [OF start dry, of "\<lambda>k. 0" some_veg "''asparagus''"]
  from inst ok obtain states where r: "run_hydrological_model_fest_ewb (\<lambda>k. 0) parched_conditions
       dry_forecast some_veg ''asparagus'' ''loamy'' = Inr states" by blast
  with inst obtain td stress where
    len: "length states = 72" and
    wp: "\<forall>st\<in>set states. soil_moisture st = wilting_point (soil_of ''loamy'')" and
    td: "calculate_stress_threshold_fao56 ''asparagus'' ''loamy'' (Some (vp_lai some_veg)) = Inr td" and
    an: "analyze_stress_conditions_pregi states td = Inr stress" and
    urg: "irrigation_urgency stress = ''critical''"
    by blast
  have "states ! 0 \<in> set states" "states ! 71 \<in> set states" using len by simp_all
  then have "soil_moisture (states ! 0) = 15 / 100" "soil_moisture (states ! 71) = 15 / 100"
    using wp by (simp_all add: loamy loamy_def)
  with r len td an urg show ?thesis by blast
qed

section \<open>The percolation term\<close>

lemma bind_err_cong:
  "r = r' \<Longrightarrow> (\<And>v. r' = Inr v \<Longrightarrow> f v = f' v) \<Longrightarrow> bind_err r f = bind_err r' f'"
  by (cases r') simp_all

lemma water_balance_step_perc_cong:
  "perc1 cur (field_capacity (soil_of s)) (hydraulic_conductivity (soil_of s)) =
   perc2 cur (field_capacity (soil_of s)) (hydraulic_conductivity (soil_of s)) \<Longrightarrow>
   water_balance_step perc1 clk ic w veg c s h cur e0 =
   water_balance_step perc2 clk ic w veg c s h cur e0"
  by (simp add: water_balance_step_def Let_def)

lemma hydro_hour_perc_cong:
  "perc1 cur (field_capacity (soil_of s)) (hydraulic_conductivity (soil_of s)) =
   perc2 cur (field_capacity (soil_of s)) (hydraulic_conductivity (soil_of s)) \<Longrightarrow>
   hydro_hour_with perc1 clk ic wfc veg c s h cur = hydro_hour_with perc2 clk ic wfc veg c s h cur"
  unfolding hydro_hour_with_def
  using water_balance_step_perc_cong [of perc1 cur s perc2 clk ic _ veg c h] by simp

lemma loop_without_percolation:
  "cur \<le> field_capacity (soil_of s) \<Longrightarrow>
   hydro_loop_with calculate_deep_percolation clk ic wfc veg c s hrs cur =
   hydro_loop_with (\<lambda>moisture fc conductivity. 0) clk ic wfc veg c s hrs cur"
proof (induction hrs arbitrary: cur)
  case Nil
  then show ?case by simp
next
  case (Cons h hrs)
  have hour: "hydro_hour_with calculate_deep_percolation clk ic wfc veg c s h cur =
      hydro_hour_with (\<lambda>moisture fc conductivity. 0) clk ic wfc veg c s h cur"
    by (rule hydro_hour_perc_cong) (simp add: deep_percolation_zero Cons.prems)
  show ?case
  proof (cases "hydro_hour_with (\<lambda>moisture fc conductivity. 0) clk ic wfc veg c s h cur")
    case (Inl e)
    then show ?thesis using hour by simp
  next
    case (Inr b)
    have "hb_new_moisture b \<le> field_capacity (soil_of s)"
      using hydro_hour_in_bounds(2) [OF Inr] .
    from Cons.IH [OF this] show ?thesis using hour Inr by simp
  qed
qed

lemma loop_percolation_zero:
  "hydro_loop_with calculate_deep_percolation clk ic wfc veg c s hrs cur = Inr bs \<Longrightarrow>
   cur \<le> field_capacity (soil_of s) \<Longrightarrow> b \<in> set bs \<Longrightarrow> hb_deep_percolation b = 0"
proof (induction hrs arbitrary: cur bs)
  case Nil
  then show ?case by simp
next
  case (Cons h hrs)
  from Cons.prems(1) obtain b0 bs' where
    b0: "hydro_hour_with calculate_deep_percolation clk ic wfc veg c s h cur = Inr b0" and
    rest: "hydro_loop_with calculate_deep_percolation clk ic wfc veg c s hrs
             (hb_new_moisture b0) = Inr bs'" and
    bs: "bs = b0 # bs'" by (rule hydro_loop_Cons)
  show ?case
  proof (cases "b = b0")
    case True
    from hydro_hour_Inr [OF b0] obtain w e0 where
      "b0 = water_balance_step calculate_deep_percolation clk ic w veg c s h cur e0" by blast
    then show ?thesis using True Cons.prems(2)
      by (simp add: water_balance_step_simps deep_percolation_zero)
  next
    case False
    then have "b \<in> set bs'" using Cons.prems(3) bs by simp
    then show ?thesis using Cons.IH [OF rest hydro_hour_in_bounds(2) [OF b0]] by simp
  qed
qed

lemma default_moisture_below_capacity:
  "soil_water_content (get_default_initial_conditions c s) \<le> field_capacity (soil_of s)"
  using soil_of_cases [of s]
  by (auto simp: get_default_initial_conditions_def Let_def sandy_def loamy_def clay_def)

lemma initial_moisture_below_capacity:
  assumes "get_initial_conditions_fest_ewb lai_data weather_data satellite c s = Inr ic"
  shows "soil_water_content ic \<le> field_capacity (soil_of s)"
proof (cases "weather_data = [] \<or> lai_data = []")
  case True
  then have "ic = get_default_initial_conditions c s"
    using assms by (auto simp: get_initial_conditions_fest_ewb_def)
  then show ?thesis by (simp add: default_moisture_below_capacity)
next
  case False
  then obtain x where
    "soil_water_content ic = py_round (max (wilting_point (soil_of s))
       (min (field_capacity (soil_of s)) x)) 4"
    using assms
    by (auto simp: get_initial_conditions_fest_ewb_def Let_def bind_err_eq_Inr
        split: option.splits)
  then show ?thesis
    using py_round4_bounds [of s "max (wilting_point (soil_of s))
       (min (field_capacity (soil_of s)) x)"] soil_wp_le_fc [of s] by simp
qed

text \<open>
  Claim C9. The initial conditions, from the data or from the defaults, have a soil
  moisture of at most the field capacity; from there the percolation term is 0 in each of
  the 72 hours, and the simulator returns what the simulator without the term returns
  (the same points, or the same error).
\<close>

theorem percolation_term_is_zero:
  assumes "get_initial_conditions_fest_ewb lai_data weather_data satellite crop_type soil_type
             = Inr ic"
  shows "soil_water_content ic \<le> field_capacity (soil_of soil_type) \<and>
     run_hydrological_model_fest_ewb clk ic wfc veg crop_type soil_type =
       run_hydrological_model_without_percolation clk ic wfc veg crop_type soil_type \<and>
     (\<forall>bs. water_balance_trace clk ic wfc veg crop_type soil_type = Inr bs \<longrightarrow>
        length bs = 72 \<and> (\<forall>b\<in>set bs. hb_deep_percolation b = 0))"
proof (intro conjI allI impI)
  show le: "soil_water_content ic \<le> field_capacity (soil_of soil_type)"
    using initial_moisture_below_capacity [OF assms] .
  show "run_hydrological_model_fest_ewb clk ic wfc veg crop_type soil_type =
       run_hydrological_model_without_percolation clk ic wfc veg crop_type soil_type"
    unfolding run_hydrological_model_fest_ewb_def run_hydrological_model_without_percolation_def
      water_balance_trace_def
    by (simp add: loop_without_percolation [OF le])
  fix bs assume tr: "water_balance_trace clk ic wfc veg crop_type soil_type = Inr bs"
  show "length bs = 72"
    using hydro_loop_length [OF tr [unfolded water_balance_trace_def]]
    by (simp add: forecast_horizon_def)
  show "\<forall>b\<in>set bs. hb_deep_percolation b = 0"
    using loop_percolation_zero [OF tr [unfolded water_balance_trace_def] le] by blast
qed

lemma initial_conditions_returns:
  assumes "weather_data \<noteq> []" and "lai_data \<noteq> []" and "obs_lai (last lai_data) = Some l"
    and "- (2373 / 10) <
           np_mean (map (\<lambda>day. opt_get (obs_temperature day) 20) (last_n 14 weather_data))"
  shows "\<exists>ic. get_initial_conditions_fest_ewb lai_data weather_data satellite c s = Inr ic"
proof -
  obtain e where "calculate_reference_et_penman_monteith
      (np_mean (map (\<lambda>day. opt_get (obs_temperature day) 20) (last_n 14 weather_data)))
      (np_mean (map (\<lambda>day. opt_get (obs_humidity day) 50) (last_n 14 weather_data)))
      (np_mean (map (\<lambda>day. opt_get (obs_solar_radiation day) 20) (last_n 14 weather_data)))
      = Inr e"
    using penman_returns [OF assms(4)] by blast
  then show ?thesis
    using assms(1,2,3) by (simp add: get_initial_conditions_fest_ewb_def Let_def)
qed

text \<open>Initial conditions computed from two days of weather, as an instance.\<close>

theorem percolation_term_is_zero_witness:
  "\<exists>ic. get_initial_conditions_fest_ewb [\<lparr>obs_lai = Some 3\<rparr>] [mild_day, mild_day]
       \<lparr>sat_ndvi = None, sat_evi = None\<rparr> ''wheat'' ''clay'' = Inr ic \<and>
     soil_water_content ic \<le> 45 / 100 \<and>
     run_hydrological_model_fest_ewb (\<lambda>k. 0) ic dry_forecast some_veg ''wheat'' ''clay'' =
       run_hydrological_model_without_percolation (\<lambda>k. 0) ic dry_forecast some_veg
         ''wheat'' ''clay''"
proof -
  have "- (2373 / 10) <
      np_mean (map (\<lambda>day. opt_get (obs_temperature day) 20) (last_n 14 [mild_day, mild_day]))"
    by (simp add: np_mean_def last_n_def mild_day_def opt_get_def)
  then obtain ic where ic: "get_initial_conditions_fest_ewb [\<lparr>obs_lai = Some 3\<rparr>]
       [mild_day, mild_day] \<lparr>sat_ndvi = None, sat_evi = None\<rparr> ''wheat'' ''clay'' = Inr ic"
    using initial_conditions_returns [of "[mild_day, mild_day]" "[\<lparr>obs_lai = Some 3\<rparr>]" 3
        "\<lparr>sat_ndvi = None, sat_evi = None\<rparr>" "''wheat''" "''clay''"]
    by auto
  have clay: "soil_of ''clay'' = clay" by (simp add: soil_of_def dict_get_def soil_types_def)
  from percolation_term_is_zero [OF ic, of "\<lambda>k. 0" dry_forecast some_veg]
  have "soil_water_content ic \<le> 45 / 100 \<and>
     run_hydrological_model_fest_ewb (\<lambda>k. 0) ic dry_forecast some_veg ''wheat'' ''clay'' =
       run_hydrological_model_without_percolation (\<lambda>k. 0) ic dry_forecast some_veg
         ''wheat'' ''clay''"
    by (simp add: clay clay_def)
  with ic show ?thesis by blast
qed

section \<open>The simulation does not depend on the clock\<close>

lemma water_balance_step_moisture_cong:
  assumes "vp_lai veg1 = vp_lai veg2"
  shows "hb_new_moisture (water_balance_step perc clk1 ic1 w veg1 c s h cur e0) =
         hb_new_moisture (water_balance_step perc clk2 ic2 w veg2 c s h cur e0)"
  using assms by (simp add: water_balance_step_simps)

lemma loop_moisture_cong:
  assumes "vp_lai veg1 = vp_lai veg2"
  shows "map_sum id (map hb_new_moisture) (hydro_loop_with perc clk1 ic1 wfc veg1 c s hrs cur) =
         map_sum id (map hb_new_moisture) (hydro_loop_with perc clk2 ic2 wfc veg2 c s hrs cur)"
proof (induction hrs arbitrary: cur)
  case Nil
  then show ?case by simp
next
  case (Cons h hrs)
  show ?case
  proof (cases "weather_for_hour wfc h")
    case (Inl e)
    then show ?thesis by (simp add: hydro_hour_with_def)
  next
    case w: (Inr w)
    show ?thesis
    proof (cases "hourly_et0_of w h")
      case (Inl e)
      then show ?thesis using w by (simp add: hydro_hour_with_def)
    next
      case (Inr e0)
      let ?b1 = "water_balance_step perc clk1 ic1 w veg1 c s h cur e0"
      let ?b2 = "water_balance_step perc clk2 ic2 w veg2 c s h cur e0"
      have eq: "hb_new_moisture ?b1 = hb_new_moisture ?b2"
        using assms by (rule water_balance_step_moisture_cong)
      have h1: "hydro_hour_with perc clk1 ic1 wfc veg1 c s h cur = Inr ?b1"
        and h2: "hydro_hour_with perc clk2 ic2 wfc veg2 c s h cur = Inr ?b2"
        using w Inr by (simp_all add: hydro_hour_with_def)
      note IH = Cons.IH [of "hb_new_moisture ?b2"]
      show ?thesis
      proof (cases "hydro_loop_with perc clk1 ic1 wfc veg1 c s hrs (hb_new_moisture ?b2)")
        case l1: (Inl e1)
        then show ?thesis using IH h1 h2 eq
          by (cases "hydro_loop_with perc clk2 ic2 wfc veg2 c s hrs (hb_new_moisture ?b2)") simp_all
      next
        case r1: (Inr bs1)
        then show ?thesis using IH h1 h2 eq
          by (cases "hydro_loop_with perc clk2 ic2 wfc veg2 c s hrs (hb_new_moisture ?b2)") simp_all
      qed
    qed
  qed
qed

lemma run_soil_moisture:
  "map_sum id (map soil_moisture) (run_hydrological_model_fest_ewb clk ic wfc veg c s) =
   map_sum id (map (\<lambda>x. py_round x 4))
     (map_sum id (map hb_new_moisture)
        (hydro_loop_with calculate_deep_percolation clk ic wfc veg c s [0 ..< forecast_horizon]
           (soil_water_content ic)))"
proof (cases "hydro_loop_with calculate_deep_percolation clk ic wfc veg c s
        [0 ..< forecast_horizon] (soil_water_content ic)")
  case (Inl e)
  then show ?thesis
    by (simp add: run_hydrological_model_fest_ewb_def water_balance_trace_def)
next
  case (Inr bs)
  have "map (\<lambda>b. soil_moisture (hb_emitted b)) bs = map (\<lambda>b. py_round (hb_new_moisture b) 4) bs"
    using hydro_loop_bounds [OF Inr] by simp
  then show ?thesis using Inr
    by (simp add: run_hydrological_model_fest_ewb_def water_balance_trace_def comp_def)
qed

text \<open>
  Claim C3, as the code has it. The simulator has no random generator among its
  arguments, and its soil moisture series does not depend on the clock it stamps the
  points with. The series is a function of the initial moisture, the forecast, the crop,
  the soil and the leaf area index of the vegetation parameters, which selects the crop
  coefficient: two runs that agree on these return the same series (or the same error),
  whatever the two clocks and the other entries of the two dictionaries.
\<close>

theorem simulation_is_deterministic:
  assumes "soil_water_content ic1 = soil_water_content ic2" and "vp_lai veg1 = vp_lai veg2"
  shows "map_sum id (map soil_moisture)
           (run_hydrological_model_fest_ewb clk1 ic1 wfc veg1 crop_type soil_type) =
         map_sum id (map soil_moisture)
           (run_hydrological_model_fest_ewb clk2 ic2 wfc veg2 crop_type soil_type)"
  unfolding run_soil_moisture assms(1)
  using loop_moisture_cong [OF assms(2), of calculate_deep_percolation clk1 ic1 wfc crop_type
      soil_type "[0 ..< forecast_horizon]" "soil_water_content ic2" clk2 ic2]
  by simp

text \<open>Two clocks and two dictionaries that differ in entries the balance does not read.\<close>

theorem simulation_is_deterministic_witness:
  "map_sum id (map soil_moisture)
     (run_hydrological_model_fest_ewb (\<lambda>k. 0) (get_default_initial_conditions ''tomato'' ''sandy'')
        dry_forecast some_veg ''tomato'' ''sandy'') =
   map_sum id (map soil_moisture)
     (run_hydrological_model_fest_ewb (\<lambda>k. 1000 + real k)
        ((get_default_initial_conditions ''tomato'' ''sandy'')\<lparr>ic_ndvi := 3 / 10\<rparr>)
        dry_forecast (some_veg\<lparr>vp_albedo := 3 / 10\<rparr>) ''tomato'' ''sandy'')"
  by (rule simulation_is_deterministic) simp_all

section \<open>No stress events\<close>

lemma analyze_no_events:
  assumes "analyze_stress_conditions_pregi forecast td = Inr stress"
  shows "irrigation_triggered stress = (stress_events stress \<noteq> [])"
  using assms
  by (auto simp: analyze_stress_conditions_pregi_def Let_def split: if_splits)

text \<open>
  Claim C6. When the stress analysis of a forecast has no stress events, the schedule
  generator returns the recommendation not to irrigate: confidence 75 + 15 = 90, water
  amount 0, water savings 100, and no schedule.
\<close>

theorem no_stress_no_irrigation:
  assumes "analyze_stress_conditions_pregi forecast td = Inr stress"
    and "stress_events stress = []"
  shows "generate_irrigation_schedule clk stress ic wfc crop_type soil_type irrigation_system =
     \<lparr>needs_irrigation = False,
      confidence = 90,
      reasoning = [Str (''No water stress detected in 72-hour forecast. '' @
                        ''Current soil moisture levels are adequate.'')],
      water_amount = Some 0,
      irrigation_method = Some ''None required'',
      timing = Some ''Monitor conditions'',
      schedule = None,
      cost_estimate = Some 0,
      water_savings = Some 100,
      yield_impact = Some ''No impact expected'',
      environmental_impact = Some ''Positive - water conservation''\<rparr>"
  using analyze_no_events [OF assms(1)] assms(2)
  by (simp add: generate_irrigation_schedule_def Let_def)

lemma scenario_thresholds_computed:
  "calculate_stress_threshold_fao56 ''asparagus'' ''loamy'' (Some (25 / 10)) = Inr scenario_thresholds"
  by (simp add: calculate_stress_threshold_fao56_def Let_def crop_of_def soil_of_def dict_get_def
      crop_parameters_def soil_types_def asparagus_def loamy_def
      calculate_vegetation_adjustment_def py_round_def round_half_even_def
      scenario_thresholds_def)

lemma moist_analysis:
  "analyze_stress_conditions_pregi [moist_point, moist_point] scenario_thresholds =
     Inr \<lparr>stress_events = [], stress_hours = 0, stress_percentage = 0,
          min_forecasted_moisture = 30 / 100, max_deficit = 5 / 100, critical_periods = [],
          irrigation_triggered = False, irrigation_urgency = ''none'',
          stress_severity = ''none''\<rparr>"
  by (simp add: analyze_stress_conditions_pregi_def Let_def stress_step_def
      classify_stress_level_def scenario_thresholds_def moist_point_def opt_get_def
      determine_irrigation_urgency_def classify_overall_stress_severity_def
      py_round_def round_half_even_def upt_rec)

text \<open>Two points well above the low trigger point 0.24, as an instance.\<close>

theorem no_stress_no_irrigation_witness:
  "analyze_stress_conditions_pregi [moist_point, moist_point] scenario_thresholds =
     Inr \<lparr>stress_events = [], stress_hours = 0, stress_percentage = 0,
          min_forecasted_moisture = 30 / 100, max_deficit = 5 / 100, critical_periods = [],
          irrigation_triggered = False, irrigation_urgency = ''none'',
          stress_severity = ''none''\<rparr> \<and>
   needs_irrigation (generate_irrigation_schedule (\<lambda>k. 0)
       \<lparr>stress_events = [], stress_hours = 0, stress_percentage = 0,
        min_forecasted_moisture = 30 / 100, max_deficit = 5 / 100, critical_periods = [],
        irrigation_triggered = False, irrigation_urgency = ''none'',
        stress_severity = ''none''\<rparr>
       (get_default_initial_conditions ''asparagus'' ''loamy'') dry_forecast
       ''asparagus'' ''loamy'' ''drip'') = False \<and>
   confidence (generate_irrigation_schedule (\<lambda>k. 0)
       \<lparr>stress_events = [], stress_hours = 0, stress_percentage = 0,
        min_forecasted_moisture = 30 / 100, max_deficit = 5 / 100, critical_periods = [],
        irrigation_triggered = False, irrigation_urgency = ''none'',
        stress_severity = ''none''\<rparr>
       (get_default_initial_conditions ''asparagus'' ''loamy'') dry_forecast
       ''asparagus'' ''loamy'' ''drip'') = 90"
  using no_stress_no_irrigation [OF moist_analysis, of "\<lambda>k. 0"
      "get_default_initial_conditions ''asparagus'' ''loamy''" dry_forecast
      "''asparagus''" "''loamy''" "''drip''"] moist_analysis
  by simp


section \<open>Failures of the stages\<close>

text \<open>
  Claim C7. Whatever exception ends the stages of the analysis, the call returns the
  fallback recommendation: no irrigation, confidence 50, the text asking for a manual
  inspection, and the error field. The call returns a response in every case: its result
  type has no exception in it.
\<close>

theorem failure_gives_fallback:
  assumes "analysis_steps env lai_data weather_data satellite bounds crop_type soil_type
             irrigation_system = Inl e"
  shows "\<exists>fb. analyze_smart_irrigation env lai_data weather_data satellite bounds crop_type
             soil_type irrigation_system = Fallback fb \<and>
           fb = get_fallback_irrigation_recommendation (fallback_clock env) \<and>
           fb_needs_irrigation fb = False \<and>
           fb_confidence fb = 50 \<and>
           fb_reasoning fb =
             ''Unable to complete smart irrigation analysis. Manual inspection recommended.'' \<and>
           fb_error fb = ''Analysis failed - insufficient data or system error''"
  using assms
  by (simp add: analyze_smart_irrigation_def get_fallback_irrigation_recommendation_def)

text \<open>An exception of a stage leaves the \<^verbatim>\<open>try\<close> block as that exception.\<close>

lemma first_stage_error:
  "get_initial_conditions_fest_ewb lai_data weather_data satellite crop_type soil_type = Inl e \<Longrightarrow>
   analysis_steps env lai_data weather_data satellite bounds crop_type soil_type
     irrigation_system = Inl e"
  by (simp add: analysis_steps_def)

lemma missing_lai_raises:
  "get_initial_conditions_fest_ewb [\<lparr>obs_lai = None\<rparr>] [mild_day]
     \<lparr>sat_ndvi = None, sat_evi = None\<rparr> crop_type soil_type = Inl KeyError"
proof -
  have "- (2373 / 10) <
      np_mean (map (\<lambda>day. opt_get (obs_temperature day) 20) (last_n 14 [mild_day]))"
    by (simp add: np_mean_def last_n_def mild_day_def opt_get_def)
  from penman_returns [OF this] obtain et0 where "calculate_reference_et_penman_monteith
      (np_mean (map (\<lambda>day. opt_get (obs_temperature day) 20) (last_n 14 [mild_day])))
      (np_mean (map (\<lambda>day. opt_get (obs_humidity day) 50) (last_n 14 [mild_day])))
      (np_mean (map (\<lambda>day. opt_get (obs_solar_radiation day) 20) (last_n 14 [mild_day])))
      = Inr et0" by blast
  then show ?thesis by (simp add: get_initial_conditions_fest_ewb_def Let_def)
qed

text \<open>A record of the LAI series without its \<^verbatim>\<open>'lai'\<close> key, as an instance.\<close>

theorem failure_gives_fallback_witness:
  "analysis_steps quiet_environment [\<lparr>obs_lai = None\<rparr>] [mild_day]
     \<lparr>sat_ndvi = None, sat_evi = None\<rparr> unit_square ''asparagus'' ''loamy'' ''drip''
     = Inl KeyError \<and>
   analyze_smart_irrigation quiet_environment [\<lparr>obs_lai = None\<rparr>] [mild_day]
     \<lparr>sat_ndvi = None, sat_evi = None\<rparr> unit_square ''asparagus'' ''loamy'' ''drip''
     = Fallback
        \<lparr>fb_analysis_id = 1700000000, fb_timestamp = 1700000000,
         fb_needs_irrigation = False, fb_confidence = 50,
         fb_reasoning =
           ''Unable to complete smart irrigation analysis. Manual inspection recommended.'',
         fb_water_amount = None, fb_irrigation_method = None, fb_timing = None,
         fb_cost_estimate = None, fb_water_savings = None,
         fb_yield_impact = ''Analysis incomplete'', fb_environmental_impact = ''Unknown'',
         fb_processing_time = 0, fb_model_accuracy = 0,
         fb_error = ''Analysis failed - insufficient data or system error''\<rparr>"
proof -
  have steps: "analysis_steps quiet_environment [\<lparr>obs_lai = None\<rparr>] [mild_day]
     \<lparr>sat_ndvi = None, sat_evi = None\<rparr> unit_square ''asparagus'' ''loamy'' ''drip''
     = Inl KeyError"
    by (rule first_stage_error) (rule missing_lai_raises)
  from failure_gives_fallback [OF steps] steps show ?thesis
    by (auto simp: get_fallback_irrigation_recommendation_def quiet_environment_def py_int_def)
qed

text \<open>A late failure: every stage returns on the defaults, and the bounds are rejected.\<close>

lemma analyze_returns:
  "forecast \<noteq> [] \<Longrightarrow> \<exists>stress. analyze_stress_conditions_pregi forecast td = Inr stress"
  by (simp add: analyze_stress_conditions_pregi_def Let_def)

lemma rejected_bounds_raise:
  assumes "north bounds < south bounds"
  shows "analysis_steps env [] [] \<lparr>sat_ndvi = None, sat_evi = None\<rparr> bounds crop_type soil_type
           irrigation_system = Inl ValueError"
proof -
  let ?sat = "\<lparr>sat_ndvi = None, sat_evi = None\<rparr>"
  have ic: "get_initial_conditions_fest_ewb [] [] ?sat crop_type soil_type =
      Inr (get_default_initial_conditions crop_type soil_type)"
    by (simp add: get_initial_conditions_fest_ewb_def)
  obtain veg where veg: "extract_vegetation_parameters ?sat [] crop_type = Inr veg"
    by (simp add: extract_vegetation_parameters_def Let_def)
  obtain td where td: "calculate_stress_threshold_fao56 crop_type soil_type (Some (vp_lai veg)) = Inr td"
    using stress_threshold_returns by blast
  have fc: "generate_meteorological_forecast (forecast_clock env) (global_rng env) [] =
      Inr (get_default_weather_forecast (forecast_clock env), global_rng env)"
    by (simp add: generate_meteorological_forecast_def)
  obtain states where run: "run_hydrological_model_fest_ewb (hydro_clock env)
      (get_default_initial_conditions crop_type soil_type)
      (get_default_weather_forecast (forecast_clock env)) veg crop_type soil_type = Inr states"
    using simulation_returns [OF default_forecast_temperatures] by blast
  have "states \<noteq> []"
    by (rule run_Inr [OF run]) auto
  then obtain stress where st: "analyze_stress_conditions_pregi states td = Inr stress"
    using analyze_returns by blast
  have b: "check_farm_bounds bounds = Inl ValueError"
    using assms by (simp add: check_farm_bounds_def)
  show ?thesis
    by (simp add: analysis_steps_def ic veg td fc run st b Let_def)
qed

section \<open>The forecast and the random generator\<close>

lemma shift5: "(\<lambda>k. g (Suc (Suc (Suc (Suc (Suc k)))))) = (\<lambda>k. g (k + 5))"
  by (simp add: eval_nat_numeral)

lemma draws:
  "g (Suc (Suc 0)) = g 2" "g (Suc (Suc (Suc 0))) = g 3" "g (Suc (Suc (Suc (Suc 0)))) = g 4"
  by (simp_all add: eval_nat_numeral)

lemma forecast_day_unfold:
  "forecast_day base_date trends recent_data day g =
     (if negative_scale recent_data then Inl ValueError
      else Inr (forecast_entry base_date trends recent_data day g, \<lambda>k. g (k + 5)))"
  unfolding forecast_day_def Let_def random_normal_def random_exponential_def
    negative_scale_def forecast_entry_def
  by (simp add: shift5 draws)

lemma shift10: "(\<lambda>k. (\<lambda>k. g (k + 5)) (k + 5)) = (\<lambda>k. g (k + 10))"
  by (simp add: add.assoc)

lemma forecast_loop_unfold:
  "forecast_loop base_date trends recent_data [0, 1, 2] g =
     (if negative_scale recent_data then Inl ValueError
      else Inr ([forecast_entry base_date trends recent_data 0 g,
                 forecast_entry base_date trends recent_data 1 (\<lambda>k. g (k + 5)),
                 forecast_entry base_date trends recent_data 2 (\<lambda>k. g (k + 10))],
                \<lambda>k. g (k + 15)))"
  by (simp add: forecast_day_unfold add.assoc)

lemma generate_forecast_unfold:
  "weather_data \<noteq> [] \<Longrightarrow>
   generate_meteorological_forecast clk g weather_data =
     (if negative_scale (last_n 14 weather_data) then Inl ValueError
      else Inr (map (\<lambda>i. forecast_entry (clk 0) (analyze_seasonal_patterns weather_data)
                         (last_n 14 weather_data) i (\<lambda>k. g (k + 5 * i))) [0, 1, 2],
                \<lambda>k. g (k + 15)))"
  unfolding generate_meteorological_forecast_def Let_def forecast_loop_unfold
  by simp

lemma seasonal_trend_is_endpoint_trend:
  "temperature_trend (analyze_seasonal_patterns weather_data) =
     endpoint_trend (map (\<lambda>d. opt_get (obs_temperature d) 20) weather_data)"
  "humidity_trend (analyze_seasonal_patterns weather_data) =
     endpoint_trend (map (\<lambda>d. opt_get (obs_humidity d) 50) weather_data)"
proof -
  have hd_last_n: "hd (map f (last_n 30 xs)) = map f xs ! (length xs - 30)"
    and last_last_n: "last (map f (last_n 30 xs)) = last (map f xs)"
    if "\<not> length xs < 30" for f :: "weather_obs \<Rightarrow> real" and xs
  proof -
    have ne: "drop (length xs - 30) xs \<noteq> []" using that by simp
    show "hd (map f (last_n 30 xs)) = map f xs ! (length xs - 30)"
      using that ne by (simp add: last_n_def hd_map hd_drop_conv_nth)
    have "xs \<noteq> []" using that by auto
    then show "last (map f (last_n 30 xs)) = last (map f xs)"
      using that ne by (simp add: last_n_def last_map last_drop)
  qed
  show "temperature_trend (analyze_seasonal_patterns weather_data) =
     endpoint_trend (map (\<lambda>d. opt_get (obs_temperature d) 20) weather_data)"
    by (simp add: analyze_seasonal_patterns_def endpoint_trend_def Let_def
        hd_last_n last_last_n del: last_map)
  show "humidity_trend (analyze_seasonal_patterns weather_data) =
     endpoint_trend (map (\<lambda>d. opt_get (obs_humidity d) 50) weather_data)"
    by (simp add: analyze_seasonal_patterns_def endpoint_trend_def Let_def
        hd_last_n last_last_n del: last_map)
qed


text \<open>
  Claim C5, as the code has it. The seasonal trend of temperature and of humidity is the
  last of the last 30 daily values minus the first of them, divided by 30, and 0 with
  fewer than 30 days. The entry of the forecast with index \<open>i\<close> in 0, 1, 2, dated
  \<open>i + 1\<close> days ahead, has the temperature baseline + trend * i + noise and the humidity
  baseline + trend * i + noise clamped to 20..100, each rounded to one decimal; its
  rainfall, wind speed and solar radiation are the draws alone, clamped below at 0, 0.5
  and 5 and rounded, with no baseline or trend added. The baselines are the means of the
  last 14 days, and entry \<open>i\<close> takes the draws \<open>5 i\<close> to \<open>5 i + 4\<close> of the generator.
\<close>

theorem forecast_follows_endpoint_trend:
  assumes "weather_data \<noteq> []"
    and "generate_meteorological_forecast clk g weather_data = Inr (ws, g')"
  shows "temperature_trend (analyze_seasonal_patterns weather_data) =
           endpoint_trend (map (\<lambda>d. opt_get (obs_temperature d) 20) weather_data) \<and>
         humidity_trend (analyze_seasonal_patterns weather_data) =
           endpoint_trend (map (\<lambda>d. opt_get (obs_humidity d) 50) weather_data) \<and>
         length ws = 3 \<and>
         (\<forall>i<3.
            wd_date (ws ! i) = day_number (clk 0 + days (real i + 1)) \<and>
            temperature (ws ! i) =
              py_round (np_mean (map (\<lambda>d. opt_get (obs_temperature d) 20) (last_n 14 weather_data))
                + endpoint_trend (map (\<lambda>d. opt_get (obs_temperature d) 20) weather_data) * real i
                + 25 / 10 * g (5 * i)) 1 \<and>
            humidity (ws ! i) =
              py_round (max 20 (min 100
                (np_mean (map (\<lambda>d. opt_get (obs_humidity d) 50) (last_n 14 weather_data))
                 + endpoint_trend (map (\<lambda>d. opt_get (obs_humidity d) 50) weather_data) * real i
                 + 8 * g (5 * i + 1)))) 1 \<and>
            rainfall (ws ! i) =
              py_round (max 0
                (np_mean (map (\<lambda>d. opt_get (obs_rainfall d) 0) (last_n 14 weather_data))
                   * (8 / 10) * g (5 * i + 2))) 1 \<and>
            wind_speed (ws ! i) =
              py_round (max (5 / 10)
                (np_mean (map (\<lambda>d. opt_get (obs_wind_speed d) 2) (last_n 14 weather_data))
                 + np_mean (map (\<lambda>d. opt_get (obs_wind_speed d) 2) (last_n 14 weather_data))
                     * (3 / 10) * g (5 * i + 3))) 1 \<and>
            solar_radiation (ws ! i) =
              py_round (max 5
                (np_mean (map (\<lambda>d. opt_get (obs_solar_radiation d) 20) (last_n 14 weather_data))
                 + np_mean (map (\<lambda>d. opt_get (obs_solar_radiation d) 20) (last_n 14 weather_data))
                     * (2 / 10) * g (5 * i + 4))) 1)"
proof -
  let ?entry = "\<lambda>i. forecast_entry (clk 0) (analyze_seasonal_patterns weather_data)
                         (last_n 14 weather_data) i (\<lambda>k. g (k + 5 * i))"
  have ws: "ws = map ?entry [0, 1, 2]"
    using assms(2) unfolding generate_forecast_unfold [OF assms(1)]
    by (simp split: if_splits)
  have trends: "temperature_trend (analyze_seasonal_patterns weather_data) =
           endpoint_trend (map (\<lambda>d. opt_get (obs_temperature d) 20) weather_data) \<and>
         humidity_trend (analyze_seasonal_patterns weather_data) =
           endpoint_trend (map (\<lambda>d. opt_get (obs_humidity d) 50) weather_data)"
    by (simp add: seasonal_trend_is_endpoint_trend)
  have len: "length ws = 3" using ws by simp
  have entries: "wd_date (ws ! i) = day_number (clk 0 + days (real i + 1)) \<and>
            temperature (ws ! i) =
              py_round (np_mean (map (\<lambda>d. opt_get (obs_temperature d) 20) (last_n 14 weather_data))
                + endpoint_trend (map (\<lambda>d. opt_get (obs_temperature d) 20) weather_data) * real i
                + 25 / 10 * g (5 * i)) 1 \<and>
            humidity (ws ! i) =
              py_round (max 20 (min 100
                (np_mean (map (\<lambda>d. opt_get (obs_humidity d) 50) (last_n 14 weather_data))
                 + endpoint_trend (map (\<lambda>d. opt_get (obs_humidity d) 50) weather_data) * real i
                 + 8 * g (5 * i + 1)))) 1 \<and>
            rainfall (ws ! i) =
              py_round (max 0
                (np_mean (map (\<lambda>d. opt_get (obs_rainfall d) 0) (last_n 14 weather_data))
                   * (8 / 10) * g (5 * i + 2))) 1 \<and>
            wind_speed (ws ! i) =
              py_round (max (5 / 10)
                (np_mean (map (\<lambda>d. opt_get (obs_wind_speed d) 2) (last_n 14 weather_data))
                 + np_mean (map (\<lambda>d. opt_get (obs_wind_speed d) 2) (last_n 14 weather_data))
                     * (3 / 10) * g (5 * i + 3))) 1 \<and>
            solar_radiation (ws ! i) =
              py_round (max 5
                (np_mean (map (\<lambda>d. opt_get (obs_solar_radiation d) 20) (last_n 14 weather_data))
                 + np_mean (map (\<lambda>d. opt_get (obs_solar_radiation d) 20) (last_n 14 weather_data))
                     * (2 / 10) * g (5 * i + 4))) 1"
    if "i < 3" for i
  proof -
    from that have "i = 0 \<or> i = 1 \<or> i = 2" by auto
    then show ?thesis
      unfolding ws
      by (elim disjE) (simp_all add: forecast_entry_def seasonal_trend_is_endpoint_trend)
  qed
  show ?thesis using trends len entries by blast
qed

lemma linear_history_temperatures:
  "map (\<lambda>d. opt_get (obs_temperature d) 20) linear_history = map real [0 ..< 30]"
  by (simp add: linear_history_def opt_get_def comp_def)

lemma upt_30: "[0 ..< 30] = [0, 1, 2, 3, 4, 5, 6, 7, 8, 9, 10, 11, 12, 13, 14, 15, 16, 17, 18,
    19, 20, 21, 22, 23, 24, 25, 26, 27, 28, 29]"
  by code_simp

lemma linear_regression_slope: "regression_slope (map real [0 ..< 30]) = 1"
  unfolding upt_30 by (simp add: regression_slope_def Let_def upt_30 power2_eq_square)

lemma linear_endpoint_trend: "endpoint_trend (map real [0 ..< 30]) = 29 / 30"
  unfolding upt_30 by (simp add: endpoint_trend_def)

lemma linear_history_length: "length linear_history = 30"
  by (simp add: linear_history_def)

lemma linear_baseline:
  "np_mean (map (\<lambda>d. opt_get (obs_temperature d) 20) (last_n 14 linear_history)) = 225 / 10"
  unfolding last_n_def drop_map [symmetric] linear_history_temperatures linear_history_length
  unfolding upt_30 by (simp add: np_mean_def)


lemma linear_history_nonempty: "linear_history \<noteq> []"
  using linear_history_length by auto

lemma linear_history_scales: "\<not> negative_scale (last_n 14 linear_history)"
proof -
  have "map (\<lambda>d. opt_get (obs_rainfall d) 0) (last_n 14 linear_history) = replicate 14 0"
    "map (\<lambda>d. opt_get (obs_wind_speed d) 2) (last_n 14 linear_history) = replicate 14 2"
    "map (\<lambda>d. opt_get (obs_solar_radiation d) 20) (last_n 14 linear_history) = replicate 14 20"
    unfolding last_n_def linear_history_length unfolding linear_history_def upt_30
    by (simp_all add: opt_get_def eval_nat_numeral)
  then show ?thesis
    by (simp add: negative_scale_def np_mean_def eval_nat_numeral)
qed

text \<open>
  Claim C5 as stated fails on thirty days whose temperatures rise by one degree a day,
  0 to 29. Their regression slope is 1; the trend computed is 29/30. With a generator
  that draws zeros, the claim gives the first forecast day the baseline 22.5 plus one
  trend; the forecast has 22.5, 23.5 and 24.4.
\<close>

theorem forecast_trend_counterexample:
  "temperature_trend (analyze_seasonal_patterns linear_history) = 29 / 30 \<and>
   regression_slope (map (\<lambda>d. opt_get (obs_temperature d) 20) (last_n 30 linear_history)) = 1 \<and>
   temperature_trend (analyze_seasonal_patterns linear_history) \<noteq>
     regression_slope (map (\<lambda>d. opt_get (obs_temperature d) 20) (last_n 30 linear_history)) \<and>
   map_sum id (\<lambda>r. map temperature (fst r))
     (generate_meteorological_forecast (\<lambda>k. 0) (\<lambda>k. 0) linear_history) =
     Inr [225 / 10, 235 / 10, 244 / 10]"
proof -
  have trend: "temperature_trend (analyze_seasonal_patterns linear_history) = 29 / 30"
    by (simp add: seasonal_trend_is_endpoint_trend linear_history_temperatures
        linear_endpoint_trend)
  have "last_n 30 linear_history = linear_history"
    by (simp add: last_n_def linear_history_length)
  then have slope:
    "regression_slope (map (\<lambda>d. opt_get (obs_temperature d) 20) (last_n 30 linear_history)) = 1"
    by (simp add: linear_history_temperatures linear_regression_slope)
  have temps: "map_sum id (\<lambda>r. map temperature (fst r))
     (generate_meteorological_forecast (\<lambda>k. 0) (\<lambda>k. 0) linear_history) =
     Inr [225 / 10, 235 / 10, 244 / 10]"
    unfolding generate_forecast_unfold [OF linear_history_nonempty]
    by (simp add: linear_history_scales forecast_entry_def trend linear_baseline
        py_round_def round_half_even_def)
  show ?thesis using trend slope temps by simp
qed

lemma mild_day_forecast:
  "generate_meteorological_forecast (\<lambda>k. 0) (\<lambda>k. c) [mild_day] =
     Inr (map (\<lambda>i. \<lparr>wd_date = int i + 1,
                      temperature = py_round (20 + 25 / 10 * c) 1,
                      humidity = py_round (max 20 (min 100 (50 + 8 * c))) 1,
                      rainfall = py_round (max 0 (8 / 10 * c)) 1,
                      wind_speed = py_round (max (5 / 10) (2 + 6 / 10 * c)) 1,
                      solar_radiation = py_round (max 5 (20 + 4 * c)) 1\<rparr>) [0, 1, 2],
          \<lambda>k. c)"
proof -
  have ne: "[mild_day] \<noteq> []" by simp
  show ?thesis
    unfolding generate_forecast_unfold [OF ne]
    by (simp add: negative_scale_def forecast_entry_def analyze_seasonal_patterns_def last_n_def
        np_mean_def mild_day_def opt_get_def day_number_def days_def)
qed

text \<open>One day of history and a generator that draws ones, as an instance.\<close>

theorem forecast_follows_endpoint_trend_witness:
  "\<exists>ws g'. generate_meteorological_forecast (\<lambda>k. 0) (\<lambda>k. 1) [mild_day] = Inr (ws, g') \<and>
     length ws = 3 \<and> temperature (ws ! 0) = 225 / 10 \<and> temperature (ws ! 2) = 225 / 10 \<and>
     rainfall (ws ! 1) = 8 / 10"
proof -
  obtain ws g' where gen:
    "generate_meteorological_forecast (\<lambda>k. 0) (\<lambda>k. 1) [mild_day] = Inr (ws, g')"
    using mild_day_forecast [of 1] by blast
  have ne: "[mild_day] \<noteq> []" by simp
  from forecast_follows_endpoint_trend [OF ne gen]
  have "length ws = 3 \<and> temperature (ws ! 0) = 225 / 10 \<and> temperature (ws ! 2) = 225 / 10 \<and>
     rainfall (ws ! 1) = 8 / 10"
    by (simp add: endpoint_trend_def last_n_def np_mean_def mild_day_def opt_get_def
        py_round_def round_half_even_def)
  with gen show ?thesis by blast
qed


lemma forecast_entry_cong:
  assumes "\<forall>j<5. z1 j = z2 j"
  shows "forecast_entry base_date trends recent_data i z1 =
         forecast_entry base_date trends recent_data i z2"
proof -
  have "z1 0 = z2 0" "z1 1 = z2 1" "z1 2 = z2 2" "z1 3 = z2 3" "z1 4 = z2 4"
    using assms by simp_all
  then show ?thesis by (simp add: forecast_entry_def)
qed

text \<open>
  Claim C4, as the code has it. The generator is the global state and no parameter: the
  forecast is the same for two global states that agree on their first 15 draws, and a
  call on a non-empty history leaves the global state 15 draws further.
\<close>

theorem forecast_reads_global_generator:
  assumes "\<forall>k<15. g1 k = g2 k"
  shows "map_sum id fst (generate_meteorological_forecast clk g1 weather_data) =
         map_sum id fst (generate_meteorological_forecast clk g2 weather_data) \<and>
         (\<forall>ws g'. weather_data \<noteq> [] \<and>
            generate_meteorological_forecast clk g1 weather_data = Inr (ws, g') \<longrightarrow>
            g' = (\<lambda>k. g1 (k + 15)))"
proof (cases "weather_data = []")
  case True
  then show ?thesis by (simp add: generate_meteorological_forecast_def)
next
  case False
  have e: "forecast_entry b t r i (\<lambda>k. g1 (k + 5 * i)) = forecast_entry b t r i (\<lambda>k. g2 (k + 5 * i))"
    if "i < 3" for b t r i
    by (rule forecast_entry_cong) (use assms that in auto)
  show ?thesis
    unfolding generate_forecast_unfold [OF False]
    using e [of 0] e [of 1] e [of 2] False by simp
qed

text \<open>Two states that agree on 15 draws and differ after them.\<close>

theorem forecast_reads_global_generator_witness:
  "map_sum id fst (generate_meteorological_forecast (\<lambda>k. 0)
       (\<lambda>k. if k < 15 then 1 else 0) [mild_day]) =
   map_sum id fst (generate_meteorological_forecast (\<lambda>k. 0) (\<lambda>k. 1) [mild_day])"
  using forecast_reads_global_generator [of "\<lambda>k. if k < 15 then 1 else 0" "\<lambda>k. 1"
      "\<lambda>k. 0" "[mild_day]"]
  by simp

lemma analysis_returns:
  assumes "get_initial_conditions_fest_ewb lai_data weather_data satellite crop_type soil_type
             = Inr ic"
    and "extract_vegetation_parameters satellite lai_data crop_type = Inr veg"
    and "generate_meteorological_forecast (forecast_clock env) (global_rng env) weather_data
           = Inr (wfc, g')"
    and "wfc \<noteq> []" and "\<forall>w\<in>set wfc. - 232 < temperature w"
    and "check_farm_bounds bounds = Inr checked"
  shows "\<exists>r. analysis_steps env lai_data weather_data satellite bounds crop_type soil_type
           irrigation_system = Inr r \<and> r_weather_forecast r = wfc"
proof -
  obtain td where td: "calculate_stress_threshold_fao56 crop_type soil_type (Some (vp_lai veg)) = Inr td"
    using stress_threshold_returns by blast
  obtain states where run: "run_hydrological_model_fest_ewb (hydro_clock env) ic wfc veg
      crop_type soil_type = Inr states"
    using simulation_returns [OF assms(4,5)] by blast
  have "states \<noteq> []"
    by (rule run_Inr [OF run]) auto
  then obtain stress where st: "analyze_stress_conditions_pregi states td = Inr stress"
    using analyze_returns by blast
  show ?thesis
    by (simp add: analysis_steps_def assms(1,2,3,6) td run st Let_def)
qed

text \<open>
  Claim C4 as stated fails: the analysis has no seed among its parameters, and two calls
  with the same arguments, clocks and identifiers return different responses when the
  global generator draws zeros for one and ones for the other (the first forecast
  temperature is 20.0 in one response and 22.5 in the other).
\<close>

theorem seedless_analysis_counterexample:
  "analyze_smart_irrigation quiet_environment [] [mild_day] \<lparr>sat_ndvi = None, sat_evi = None\<rparr>
     unit_square ''asparagus'' ''loamy'' ''drip'' \<noteq>
   analyze_smart_irrigation (quiet_environment\<lparr>global_rng := \<lambda>k. 1\<rparr>) [] [mild_day]
     \<lparr>sat_ndvi = None, sat_evi = None\<rparr> unit_square ''asparagus'' ''loamy'' ''drip''"
proof -
  let ?sat = "\<lparr>sat_ndvi = None, sat_evi = None\<rparr>"
  let ?env1 = "quiet_environment\<lparr>global_rng := \<lambda>k. 1\<rparr>"
  define day where "day = (\<lambda>c::real. \<lambda>i::nat. \<lparr>wd_date = int i + 1,
                      temperature = py_round (20 + 25 / 10 * c) 1,
                      humidity = py_round (max 20 (min 100 (50 + 8 * c))) 1,
                      rainfall = py_round (max 0 (8 / 10 * c)) 1,
                      wind_speed = py_round (max (5 / 10) (2 + 6 / 10 * c)) 1,
                      solar_radiation = py_round (max 5 (20 + 4 * c)) 1\<rparr>)"
  have ic: "get_initial_conditions_fest_ewb [] [mild_day] ?sat ''asparagus'' ''loamy'' =
      Inr (get_default_initial_conditions ''asparagus'' ''loamy'')"
    by (simp add: get_initial_conditions_fest_ewb_def)
  obtain veg where veg: "extract_vegetation_parameters ?sat [] ''asparagus'' = Inr veg"
    by (simp add: extract_vegetation_parameters_def Let_def)
  have b: "check_farm_bounds unit_square = Inr unit_square"
    by (simp add: check_farm_bounds_def unit_square_def)
  have f0: "generate_meteorological_forecast (forecast_clock quiet_environment)
      (global_rng quiet_environment) [mild_day] = Inr (map (day 0) [0, 1, 2], \<lambda>k. 0)"
    using mild_day_forecast [of 0] by (simp add: quiet_environment_def day_def)
  have f1: "generate_meteorological_forecast (forecast_clock ?env1) (global_rng ?env1) [mild_day]
      = Inr (map (day 1) [0, 1, 2], \<lambda>k. 1)"
    using mild_day_forecast [of 1] by (simp add: quiet_environment_def day_def)
  have t0: "\<forall>w\<in>set (map (day 0) [0, 1, 2]). - 232 < temperature w"
    and t1: "\<forall>w\<in>set (map (day 1) [0, 1, 2]). - 232 < temperature w"
    by (simp_all add: day_def py_round_def round_half_even_def)
  obtain r0 where r0: "analysis_steps quiet_environment [] [mild_day] ?sat unit_square
      ''asparagus'' ''loamy'' ''drip'' = Inr r0" "r_weather_forecast r0 = map (day 0) [0, 1, 2]"
    using analysis_returns [OF ic veg f0 _ t0 b] by auto
  obtain r1 where r1: "analysis_steps ?env1 [] [mild_day] ?sat unit_square
      ''asparagus'' ''loamy'' ''drip'' = Inr r1" "r_weather_forecast r1 = map (day 1) [0, 1, 2]"
    using analysis_returns [OF ic veg f1 _ t1 b] by auto
  have "temperature (hd (r_weather_forecast r0)) = 20"
    "temperature (hd (r_weather_forecast r1)) = 225 / 10"
    by (simp_all add: r0 r1 day_def py_round_def round_half_even_def)
  then have "r0 \<noteq> r1" by auto
  then show ?thesis by (simp add: analyze_smart_irrigation_def r0 r1)
qed

section \<open>The leaf area index and the simulation\<close>

lemma round_half_even_near:
  assumes "of_int k - 1 / 2 < y" and "y < of_int k + 1 / 2"
  shows "round_half_even y = k"
proof -
  have "\<lfloor>y\<rfloor> = k \<or> \<lfloor>y\<rfloor> = k - 1" using assms by linarith
  then show ?thesis
  proof
    assume "\<lfloor>y\<rfloor> = k"
    then show ?thesis using assms by (simp add: round_half_even_def Let_def)
  next
    assume "\<lfloor>y\<rfloor> = k - 1"
    then show ?thesis using assms by (simp add: round_half_even_def Let_def)
  qed
qed

lemma py_round4_near:
  assumes "of_int k - 1 / 2 < x * 10000" and "x * 10000 < of_int k + 1 / 2"
  shows "py_round x 4 = of_int k / 10000"
  using round_half_even_near [OF assms] by (simp add: py_round_def)

lemma freezing_first_hour:
  "\<exists>e. hourly_et0_of (hd freezing_forecast) 0 = Inr e \<and> 1572 / 10000 < e \<and> e < 1573 / 10000"
proof -
  have "hourly_et0_of (hd freezing_forecast) 0 =
     Inr ((665 / 1000 * 900 / 273 * 2)
            / (4098 * (6108 / 10000) / ((2373 / 10) * (2373 / 10))
                 + 665 / 1000 * (1 + 34 / 100 * 2)) / 24)"
    by (simp add: hourly_et0_of_def calculate_hourly_et0_def
        calculate_reference_et_penman_monteith_def freezing_forecast_def Let_def
        power2_eq_square)
  moreover have "1572 / 10000 < (665 / 1000 * 900 / 273 * 2)
            / (4098 * (6108 / 10000) / ((2373 / 10) * (2373 / 10))
                 + 665 / 1000 * (1 + 34 / 100 * 2)) / (24::real)"
    by simp
  moreover have "(665 / 1000 * 900 / 273 * 2)
            / (4098 * (6108 / 10000) / ((2373 / 10) * (2373 / 10))
                 + 665 / 1000 * (1 + 34 / 100 * 2)) / (24::real) < 1573 / 10000"
    by simp
  ultimately show ?thesis by blast
qed

lemma first_point_of_run:
  assumes "run_hydrological_model_fest_ewb clk ic wfc veg c s = Inr states"
    and "weather_for_hour wfc 0 = Inr w" and "hourly_et0_of w 0 = Inr e0"
  shows "soil_moisture (hd states) =
     py_round (new_moisture_of (soil_water_content ic) (rainfall w)
       (e0 * get_crop_coefficient c (vp_lai veg))
       (calculate_deep_percolation (soil_water_content ic) (field_capacity (soil_of s))
          (hydraulic_conductivity (soil_of s))) c s) 4"
proof -
  from assms(1) obtain bs where
    bs: "hydro_loop_with calculate_deep_percolation clk ic wfc veg c s [0 ..< forecast_horizon]
       (soil_water_content ic) = Inr bs" and st: "states = map hb_emitted bs"
    by (rule run_Inr)
  have "[0 ..< forecast_horizon] = 0 # [1 ..< forecast_horizon]"
    by (simp add: forecast_horizon_def upt_conv_Cons)
  with bs obtain b0 bs' where
    b0: "hydro_hour_with calculate_deep_percolation clk ic wfc veg c s 0 (soil_water_content ic)
           = Inr b0" and "bs = b0 # bs'"
    using hydro_loop_Cons by metis
  then have hd: "hd states = hb_emitted b0" using st by simp
  have "b0 = water_balance_step calculate_deep_percolation clk ic w veg c s 0
               (soil_water_content ic) e0"
    using b0 assms(2,3) by (simp add: hydro_hour_with_def)
  then show ?thesis unfolding hd by (simp add: water_balance_step_simps)
qed

lemma tomato_loamy_first_hour:
  assumes "1572 / 10000 < e" and "e < 1573 / 10000"
  shows "new_moisture_of (245 / 1000) 0 (e * (6 / 10)) 0 ''tomato'' ''loamy'' =
           245 / 1000 - e * (6 / 10) / 1000"
    and "new_moisture_of (245 / 1000) 0 (e * (115 / 100)) 0 ''tomato'' ''loamy'' =
           245 / 1000 - e * (115 / 100) / 1000"
proof -
  have crop: "crop_of ''tomato'' = tomato"
    by (simp add: crop_of_def dict_get_def crop_parameters_def)
  have soil: "soil_of ''loamy'' = loamy"
    by (simp add: soil_of_def dict_get_def soil_types_def)
  show "new_moisture_of (245 / 1000) 0 (e * (6 / 10)) 0 ''tomato'' ''loamy'' =
           245 / 1000 - e * (6 / 10) / 1000"
    using assms by (simp add: new_moisture_of_def crop soil tomato_def loamy_def)
  show "new_moisture_of (245 / 1000) 0 (e * (115 / 100)) 0 ''tomato'' ''loamy'' =
           245 / 1000 - e * (115 / 100) / 1000"
    using assms by (simp add: new_moisture_of_def crop soil tomato_def loamy_def)
qed

text \<open>
  Claim C3 as stated fails: its list of inputs (initial moisture, forecast, crop and soil)
  has no leaf area index. Two runs with the same initial moisture 0.245, the same
  forecast, the crop tomato, the soil loamy and the same clock, one with the leaf area
  index 0.5 and one with 2.5, have the crop coefficients 0.6 and 1.15, and their first
  points are 0.2449 and 0.2448.
\<close>

theorem leaf_area_changes_series_counterexample:
  "map_sum id (\<lambda>states. soil_moisture (hd states))
     (run_hydrological_model_fest_ewb (\<lambda>k. 0) (get_default_initial_conditions ''tomato'' ''loamy'')
        freezing_forecast (some_veg\<lparr>vp_lai := 5 / 10\<rparr>) ''tomato'' ''loamy'')
     = Inr (2449 / 10000) \<and>
   map_sum id (\<lambda>states. soil_moisture (hd states))
     (run_hydrological_model_fest_ewb (\<lambda>k. 0) (get_default_initial_conditions ''tomato'' ''loamy'')
        freezing_forecast (some_veg\<lparr>vp_lai := 25 / 10\<rparr>) ''tomato'' ''loamy'')
     = Inr (2448 / 10000) \<and>
   map_sum id (map soil_moisture)
     (run_hydrological_model_fest_ewb (\<lambda>k. 0) (get_default_initial_conditions ''tomato'' ''loamy'')
        freezing_forecast (some_veg\<lparr>vp_lai := 5 / 10\<rparr>) ''tomato'' ''loamy'') \<noteq>
   map_sum id (map soil_moisture)
     (run_hydrological_model_fest_ewb (\<lambda>k. 0) (get_default_initial_conditions ''tomato'' ''loamy'')
        freezing_forecast (some_veg\<lparr>vp_lai := 25 / 10\<rparr>) ''tomato'' ''loamy'')"
proof -
  let ?ic = "get_default_initial_conditions ''tomato'' ''loamy''"
  let ?run = "\<lambda>l. run_hydrological_model_fest_ewb (\<lambda>k. 0) ?ic freezing_forecast
                 (some_veg\<lparr>vp_lai := l\<rparr>) ''tomato'' ''loamy''"
  have ok: "freezing_forecast \<noteq> []" "\<forall>w\<in>set freezing_forecast. - 232 < temperature w"
    by (simp_all add: freezing_forecast_def)
  have w: "weather_for_hour freezing_forecast 0 = Inr (hd freezing_forecast)"
    by (simp add: weather_for_hour_def freezing_forecast_def)
  have crop: "crop_of ''tomato'' = tomato"
    by (simp add: crop_of_def dict_get_def crop_parameters_def)
  have soil: "soil_of ''loamy'' = loamy"
    by (simp add: soil_of_def dict_get_def soil_types_def)
  have start: "soil_water_content ?ic = 245 / 1000"
    by (simp add: get_default_initial_conditions_def Let_def soil loamy_def)
  have rain: "rainfall (hd freezing_forecast) = 0" by (simp add: freezing_forecast_def)
  have dp: "calculate_deep_percolation (245 / 1000) (field_capacity (soil_of ''loamy''))
      (hydraulic_conductivity (soil_of ''loamy'')) = 0"
    by (simp add: calculate_deep_percolation_def soil loamy_def)
  obtain e where e: "hourly_et0_of (hd freezing_forecast) 0 = Inr e"
    and lo: "1572 / 10000 < e" and hi: "e < 1573 / 10000"
    using freezing_first_hour by blast
  obtain s1 where s1: "?run (5 / 10) = Inr s1" using simulation_returns [OF ok] by blast
  obtain s2 where s2: "?run (25 / 10) = Inr s2" using simulation_returns [OF ok] by blast
  have kc1: "get_crop_coefficient ''tomato'' (vp_lai (some_veg\<lparr>vp_lai := 5 / 10\<rparr>)) = 6 / 10"
    and kc2: "get_crop_coefficient ''tomato'' (vp_lai (some_veg\<lparr>vp_lai := 25 / 10\<rparr>)) = 115 / 100"
    by (simp_all add: get_crop_coefficient_def Let_def crop tomato_def)
  have "soil_moisture (hd s1) = py_round (245 / 1000 - e * (6 / 10) / 1000) 4"
    unfolding first_point_of_run [OF s1 w e] kc1 start rain dp
    using tomato_loamy_first_hour(1) [OF lo hi] by simp
  also have "\<dots> = of_int 2449 / 10000"
    by (rule py_round4_near) (use lo hi in simp_all)
  finally have h1: "soil_moisture (hd s1) = 2449 / 10000" by simp
  have "soil_moisture (hd s2) = py_round (245 / 1000 - e * (115 / 100) / 1000) 4"
    unfolding first_point_of_run [OF s2 w e] kc2 start rain dp
    using tomato_loamy_first_hour(2) [OF lo hi] by simp
  also have "\<dots> = of_int 2448 / 10000"
    by (rule py_round4_near) (use lo hi in simp_all)
  finally have h2: "soil_moisture (hd s2) = 2448 / 10000" by simp
  have "s1 \<noteq> []" "s2 \<noteq> []"
    by (rule run_Inr [OF s1], auto, rule run_Inr [OF s2], auto)
  then have "hd (map soil_moisture s1) \<noteq> hd (map soil_moisture s2)"
    using h1 h2 by (simp add: hd_map)
  then have "map soil_moisture s1 \<noteq> map soil_moisture s2" by auto
  then show ?thesis unfolding s1 s2 using h1 h2 by simp
qed

end
